theory Spec2Isabelle
  imports Complex_Main
begin

section \<open>The seaweed scale-up model (scaleup_model.py)\<close>

text \<open>
  Python floats are modelled as real numbers: every arithmetic operation of the source
  is the exact operation on \<open>real\<close>. Exceptions are values of the type \<open>error\<close>.
  A division whose divisor is a plain Python number raises ZeroDivisionError on zero;
  the model raises it at every division by a model variable.
\<close>

datatype error = AssertionError | TypeError | IndexError | ZeroDivisionError

text \<open>
  The argument \<open>growth_rate_fraction\<close> is inspected with \<open>isinstance\<close>: a float, a
  list, or anything else.
\<close>

datatype growth_input = GrfFloat real | GrfList "real list" | GrfOther

subsection \<open>Pure helpers\<close>

definition self_shading :: "real \<Rightarrow> error + real" where
  "self_shading density =
     (if \<not> density > 0 then Inl AssertionError
      else if density < 0.4 then Inr 1
      else Inr (exp (- 0.513 * (density - 0.4))))"

definition logistic_curve :: "real \<Rightarrow> real \<Rightarrow> real \<Rightarrow> real \<Rightarrow> real \<Rightarrow> real" where
  "logistic_curve x max_L k x0 off = max_L / (1 + exp (- k * (x - x0))) + off"

definition seaweed_farm_area_per_day :: "nat \<Rightarrow> real" where
  "seaweed_farm_area_per_day day =
     logistic_curve (real day) 4156.10385 0.0283799528 157.630971 (- 41.0270637)"

subsection \<open>Arguments, loop variables and the rows of the data frame\<close>

record config =
  initial_seaweed :: real
  initial_area_built :: real
  initial_area_used :: real
  new_module_area_per_day_arg :: real
  min_density :: real
  max_density :: real
  max_area :: real
  optimal_growth_rate :: real
  growth_rate_fraction :: growth_input
  initial_lag :: real
  percent_usable_for_growth :: real
  days_to_run :: nat
  calibration_run :: bool
  self_harvest_loss :: real

record state =
  new_module_area_per_day :: real
  current_area_built :: real
  current_area_used :: real
  current_seaweed :: real
  current_density :: real
  track_max_area :: bool
  cumulative_harvest_for_food :: real
  current_seaweed_need :: real
  harvest_intervall :: nat
  harvest_intervall_all :: "nat list"

text \<open>
  One row of the data frame \<open>df\<close>; a cell that was never assigned is \<open>None\<close> (NaN in
  pandas). The field \<open>col_x\<close> is the column \<open>"x"\<close>.
\<close>

record row =
  col_new_module_area_per_day :: "real option"
  col_actual_growth_rate_multiplicator :: "real option"
  col_harvest_intervall :: "real option"
  col_seaweed_remaining_to_grow :: "real option"
  col_harvest_wet :: "real option"
  col_harvest_wet_with_loss :: "real option"
  col_harvest_for_food :: "real option"
  col_new_area_used :: "real option"
  col_current_seaweed_need :: "real option"
  col_current_area_built :: "real option"
  col_current_area_used :: "real option"
  col_current_seaweed :: "real option"
  col_current_density :: "real option"
  col_cumulative_harvest_for_food :: "real option"

definition empty_row :: row where
  "empty_row = \<lparr>col_new_module_area_per_day = None,
     col_actual_growth_rate_multiplicator = None,
     col_harvest_intervall = None,
     col_seaweed_remaining_to_grow = None,
     col_harvest_wet = None,
     col_harvest_wet_with_loss = None,
     col_harvest_for_food = None,
     col_new_area_used = None,
     col_current_seaweed_need = None,
     col_current_area_built = None,
     col_current_area_used = None,
     col_current_seaweed = None,
     col_current_density = None,
     col_cumulative_harvest_for_food = None\<rparr>"

subsection \<open>One day of the loop of seaweed_growth\<close>

text \<open>
  Lines 100-105: the module area of the day (the logistic curve once the rate is
  positive, else the rate as it is) and the part of it usable for growth.
\<close>

definition module_area_of_day :: "state \<Rightarrow> nat \<Rightarrow> real" where
  "module_area_of_day s current_day =
     (if new_module_area_per_day s > 0
      then seaweed_farm_area_per_day current_day
      else new_module_area_per_day s)"

definition growth_area_per_day :: "config \<Rightarrow> state \<Rightarrow> nat \<Rightarrow> real" where
  "growth_area_per_day c s current_day =
     module_area_of_day s current_day * (percent_usable_for_growth c / 100)"

text \<open>
  Lines 100-122: the area built on the day. The result holds the new values of
  \<open>new_module_area_per_day\<close>, \<open>current_area_built\<close> and \<open>track_max_area\<close>, and
  the row with the cell \<open>"new_module_area_per_day"\<close> written.
\<close>

definition build_area :: "config \<Rightarrow> nat \<Rightarrow> state \<Rightarrow> row \<Rightarrow> state \<times> row" where
  "build_area c current_day s r =
     (let nm = module_area_of_day s current_day;
          s1 = s\<lparr>new_module_area_per_day := nm\<rparr>
      in if real current_day > initial_lag c then
           (if current_area_built s1 < max_area c then
              (let b = current_area_built s1 + growth_area_per_day c s current_day
               in (s1\<lparr>current_area_built := (if b > max_area c then max_area c else b)\<rparr>,
                   r\<lparr>col_new_module_area_per_day := Some nm\<rparr>))
            else
              ((if \<not> track_max_area s1 \<and> \<not> calibration_run c
                then s1\<lparr>track_max_area := True\<rparr> else s1),
               r\<lparr>col_new_module_area_per_day := Some 0\<rparr>))
         else (s1, r\<lparr>col_new_module_area_per_day := Some 0\<rparr>))"

text \<open>
  Lines 129-151: the growth multiplier of the day from the self-shading factor, with
  the type dispatch on \<open>growth_rate_fraction\<close>, its assertions and the indexing of the
  list by the day.
\<close>

definition growth_rate :: "config \<Rightarrow> nat \<Rightarrow> real \<Rightarrow> error + real" where
  "growth_rate c current_day self_shading_factor =
     (case growth_rate_fraction c of
        GrfFloat g \<Rightarrow>
          (if \<not> (self_shading_factor \<le> 1 \<and> self_shading_factor \<ge> 0) then Inl AssertionError
           else Inr (1 + (optimal_growth_rate c * g * self_shading_factor) / 100))
      | GrfList gs \<Rightarrow>
          (if \<not> list_all (\<lambda>x. x \<le> 1 \<and> x \<ge> 0) gs then Inl AssertionError
           else if \<not> current_day < length gs then Inl IndexError
           else Inr (1 + (optimal_growth_rate c * (gs ! current_day) * self_shading_factor) / 100))
      | GrfOther \<Rightarrow> Inl TypeError)"

text \<open>
  Lines 160-202: the harvest, entered with the biomass after growth in
  \<open>current_seaweed\<close>. A failure returns the row as written when it is raised.
\<close>

definition harvest :: "config \<Rightarrow> state \<Rightarrow> row \<Rightarrow> (error \<times> row) + (state \<times> row)" where
  "harvest c s r =
     (let r1 = r\<lparr>col_harvest_intervall := Some (real (harvest_intervall s))\<rparr>;
          s1 = s\<lparr>harvest_intervall_all := harvest_intervall_all s @ [harvest_intervall s],
                 harvest_intervall := 0\<rparr>;
          seaweed_remaining_to_grow = current_area_used s1 * min_density c;
          r2 = r1\<lparr>col_seaweed_remaining_to_grow := Some seaweed_remaining_to_grow\<rparr>;
          harvest_wet = current_seaweed s1 - seaweed_remaining_to_grow;
          r3 = r2\<lparr>col_harvest_wet := Some harvest_wet\<rparr>;
          harvest_loss = self_harvest_loss c / 100
      in if \<not> (harvest_loss \<le> 1 \<and> harvest_loss \<ge> 0) then Inl (AssertionError, r3)
         else
          (let harvest_wet_with_loss = harvest_wet * (1 - harvest_loss);
               r4 = r3\<lparr>col_harvest_wet_with_loss := Some harvest_wet_with_loss\<rparr>;
               need = (current_area_built s1 - current_area_used s1) * min_density c;
               s2 = s1\<lparr>current_seaweed_need := need\<rparr>
           in if need > harvest_wet_with_loss then
                (if min_density c = 0 then Inl (ZeroDivisionError, r4)
                 else
                  (let new_area_used = need / min_density c;
                       s3 = s2\<lparr>current_area_used := current_area_used s2 + new_area_used\<rparr>;
                       s4 = s3\<lparr>current_seaweed := seaweed_remaining_to_grow + harvest_wet_with_loss\<rparr>
                   in Inr (s4, r4\<lparr>col_new_area_used := Some new_area_used\<rparr>)))
              else
                (let harvest_for_food = harvest_wet_with_loss - need;
                     r5 = r4\<lparr>col_harvest_for_food := Some harvest_for_food\<rparr>;
                     s3 = s2\<lparr>cumulative_harvest_for_food :=
                               cumulative_harvest_for_food s2 + harvest_for_food\<rparr>
                 in if min_density c = 0 then Inl (ZeroDivisionError, r5)
                    else
                     (let new_area_used = need / min_density c;
                          s4 = s3\<lparr>current_area_used := current_area_used s3 + new_area_used\<rparr>;
                          s5 = s4\<lparr>current_seaweed := current_area_used s4 * min_density c\<rparr>
                      in Inr (s5, r5\<lparr>col_new_area_used := Some new_area_used\<rparr>)))))"

text \<open>Lines 204-212: the counter and the cells written on every day.\<close>

definition finish_day :: "state \<Rightarrow> row \<Rightarrow> state \<times> row" where
  "finish_day s r =
     (let s1 = s\<lparr>harvest_intervall := harvest_intervall s + 1\<rparr>
      in (s1, r\<lparr>col_current_seaweed_need := Some (current_seaweed_need s1),
                 col_current_area_built := Some (current_area_built s1),
                 col_current_area_used := Some (current_area_used s1),
                 col_current_seaweed := Some (current_seaweed s1),
                 col_current_density := Some (current_density s1),
                 col_cumulative_harvest_for_food := Some (cumulative_harvest_for_food s1)\<rparr>))"

text \<open>
  The body of the loop (lines 97-212) for the day \<open>current_day\<close>, on the loop
  variables \<open>s\<close> and the row \<open>r\<close> of that day.
\<close>

definition day_step :: "config \<Rightarrow> nat \<Rightarrow> state \<Rightarrow> row \<Rightarrow> (error \<times> row) + (state \<times> row)" where
  "day_step c current_day s r =
     (case build_area c current_day s r of (s1, r1) \<Rightarrow>
        (case self_shading (current_density s1 / 1000) of
           Inl e \<Rightarrow> Inl (e, r1)
         | Inr self_shading_factor \<Rightarrow>
            (case growth_rate c current_day self_shading_factor of
               Inl e \<Rightarrow> Inl (e, r1)
             | Inr actual_growth_rate \<Rightarrow>
                (let r2 = r1\<lparr>col_actual_growth_rate_multiplicator := Some actual_growth_rate\<rparr>
                 in if \<not> (actual_growth_rate \<le> 2 \<and> actual_growth_rate \<ge> 0)
                    then Inl (AssertionError, r2)
                    else
                     (let s2 = s1\<lparr>current_seaweed := current_seaweed s1 * actual_growth_rate\<rparr>
                      in if current_area_used s2 = 0 then Inl (ZeroDivisionError, r2)
                         else
                          (let s3 = s2\<lparr>current_density := current_seaweed s2 / current_area_used s2\<rparr>
                           in if current_density s3 \<ge> max_density c then
                                (case harvest c s3 r2 of
                                   Inl e \<Rightarrow> Inl e
                                 | Inr (s4, r3) \<Rightarrow> Inr (finish_day s4 r3))
                              else Inr (finish_day s3 r2)))))))"

subsection \<open>The loop and seaweed_growth\<close>

definition init_state :: "config \<Rightarrow> state" where
  "init_state c = \<lparr>new_module_area_per_day = new_module_area_per_day_arg c,
     current_area_built = initial_area_built c,
     current_area_used = initial_area_used c,
     current_seaweed = initial_seaweed c,
     current_density = initial_seaweed c / initial_area_used c,
     track_max_area = False,
     cumulative_harvest_for_food = 0,
     current_seaweed_need = 0,
     harvest_intervall = 0,
     harvest_intervall_all = []\<rparr>"

text \<open>
  \<open>run_days c n\<close> is the loop after its first \<open>n\<close> iterations (the days \<open>0\<close> to
  \<open>n - 1\<close>): the loop variables and the data frame, or the exception with the data frame
  as it is when the exception is raised. The data frame starts with one empty row per
  day of \<open>range(days_to_run)\<close>.
\<close>

primrec run_days :: "config \<Rightarrow> nat \<Rightarrow> (error \<times> row list) + (state \<times> row list)" where
  "run_days c 0 = Inr (init_state c, replicate (days_to_run c) empty_row)"
| "run_days c (Suc n) =
     (case run_days c n of
        Inl e \<Rightarrow> Inl e
      | Inr (s, df) \<Rightarrow>
         (case day_step c n s (df ! n) of
            Inl (e, r) \<Rightarrow> Inl (e, df[n := r])
          | Inr (s', r) \<Rightarrow> Inr (s', df[n := r])))"

text \<open>
  The division of line 87 comes before the data frame is created: its failure carries
  no rows.
\<close>

definition seaweed_growth :: "config \<Rightarrow> (error \<times> row list) + (state \<times> row list)" where
  "seaweed_growth c =
     (if initial_area_used c = 0 then Inl (ZeroDivisionError, [])
      else run_days c (days_to_run c))"

subsection \<open>determine_average_productivity\<close>

text \<open>
  \<open>last_valid col df\<close> is the cell of column \<open>col\<close> at its \<open>last_valid_index()\<close>. A
  column exists in the data frame once a cell of it was assigned, so \<open>None\<close> is the
  KeyError of lines 251-256, which the \<open>except\<close> clause turns into two absent values.
\<close>

definition last_valid :: "(row \<Rightarrow> real option) \<Rightarrow> row list \<Rightarrow> real option" where
  "last_valid col df =
     (case filter (\<lambda>v. v \<noteq> None) (map col df) of [] \<Rightarrow> None | v # vs \<Rightarrow> last (v # vs))"

definition stable_productivity :: "row list \<Rightarrow> real option" where
  "stable_productivity harvest_df =
     (case last_valid col_harvest_intervall harvest_df of
        None \<Rightarrow> None
      | Some stable_harvest_intervall \<Rightarrow>
         (case last_valid col_harvest_for_food harvest_df of
            None \<Rightarrow> None
          | Some stable_harvest_for_food \<Rightarrow>
              Some (stable_harvest_for_food / stable_harvest_intervall)))"

definition calibration_config :: "real \<Rightarrow> growth_input \<Rightarrow> nat \<Rightarrow> real \<Rightarrow> real \<Rightarrow> config" where
  "calibration_config hl grf days pct ogr =
     \<lparr>initial_seaweed = 1, initial_area_built = 1, initial_area_used = 1,
      new_module_area_per_day_arg = 0, min_density = 1200, max_density = 3600,
      max_area = 1, optimal_growth_rate = ogr, growth_rate_fraction = grf,
      initial_lag = 0, percent_usable_for_growth = pct, days_to_run = days,
      calibration_run = True, self_harvest_loss = hl\<rparr>"

text \<open>
  The first argument is \<open>self.harvest_loss\<close>; an exception of the run is not caught.
\<close>

definition determine_average_productivity ::
    "real \<Rightarrow> growth_input \<Rightarrow> nat \<Rightarrow> real \<Rightarrow> real \<Rightarrow> error + real option" where
  "determine_average_productivity hl grf days pct ogr =
     (case seaweed_growth (calibration_config hl grf days pct ogr) of
        Inl (e, df) \<Rightarrow> Inl e
      | Inr (s, harvest_df) \<Rightarrow> Inr (stable_productivity harvest_df))"

subsection \<open>Example runs\<close>

text \<open>
  A family of small runs used to evaluate the model: densities stay below 400 tonnes per square kilometre,
  where the self-shading factor is 1, so that every cell is a rational number.
\<close>

definition example_config :: "real \<Rightarrow> real \<Rightarrow> real \<Rightarrow> real \<Rightarrow> real \<Rightarrow> growth_input \<Rightarrow> nat \<Rightarrow> config" where
  "example_config seaweed built used rate pct grf days =
     \<lparr>initial_seaweed = seaweed, initial_area_built = built, initial_area_used = used,
      new_module_area_per_day_arg = rate, min_density = 100, max_density = 300,
      max_area = 10, optimal_growth_rate = 100, growth_rate_fraction = grf,
      initial_lag = 0, percent_usable_for_growth = pct, days_to_run = days,
      calibration_run = False, self_harvest_loss = 10\<rparr>"

section \<open>Self-shading\<close>




lemma self_shading_range:
  assumes "self_shading d = Inr f"
  shows "0 < f \<and> f \<le> 1"
proof (cases "d < 0.4")
  case True
  with assms show ?thesis by (auto simp: self_shading_def split: if_splits)
next
  case False
  then have "- 0.513 * (d - 0.4) \<le> 0" by simp
  then have "exp (- 0.513 * (d - 0.4)) \<le> 1" by (simp only: exp_le_one_iff)
  moreover have "f = exp (- 0.513 * (d - 0.4))"
    using assms False by (auto simp: self_shading_def split: if_splits)
  ultimately show ?thesis by simp
qed



section \<open>Facts about one day\<close>

lemma build_area_fields:
  "build_area c d s r = (s1, r1) \<Longrightarrow>
     current_area_used s1 = current_area_used s \<and>
     current_seaweed s1 = current_seaweed s \<and>
     current_density s1 = current_density s \<and>
     cumulative_harvest_for_food s1 = cumulative_harvest_for_food s \<and>
     current_seaweed_need s1 = current_seaweed_need s \<and>
     harvest_intervall s1 = harvest_intervall s \<and>
     new_module_area_per_day s1 = module_area_of_day s d \<and>
     (\<exists>v. r1 = r\<lparr>col_new_module_area_per_day := Some v\<rparr>)"
  by (auto simp: build_area_def Let_def split: if_splits)

lemma build_area_built:
  "build_area c d s r = (s1, r1) \<Longrightarrow>
     current_area_built s1 =
       (if real d > initial_lag c \<and> current_area_built s < max_area c
        then (if current_area_built s + growth_area_per_day c s d > max_area c
              then max_area c
              else current_area_built s + growth_area_per_day c s d)
        else current_area_built s)"
  by (auto simp: build_area_def Let_def split: if_splits)

lemma build_area_row:
  "build_area c d s r = (s1, r1) \<Longrightarrow>
     \<exists>v. r1 = r\<lparr>col_new_module_area_per_day := Some v\<rparr>"
  by (auto simp: build_area_def Let_def split: if_splits)

lemma harvest_state:
  assumes "harvest c s r = Inr (s', r')"
  shows "min_density c \<noteq> 0 \<and>
     current_area_built s' = current_area_built s \<and>
     current_area_used s' = current_area_built s \<and>
     current_density s' = current_density s \<and>
     new_module_area_per_day s' = new_module_area_per_day s \<and>
     harvest_intervall s' = 0 \<and>
     cumulative_harvest_for_food s \<le> cumulative_harvest_for_food s' \<and>
     col_harvest_intervall r' = Some (real (harvest_intervall s)) \<and>
     col_new_area_used r' = Some (current_area_built s - current_area_used s) \<and>
     col_actual_growth_rate_multiplicator r' = col_actual_growth_rate_multiplicator r"
  using assms
  by (auto simp: harvest_def Let_def split: if_splits)

lemma finish_day_state:
  assumes "finish_day s r = (s', r')"
  shows "s' = s\<lparr>harvest_intervall := harvest_intervall s + 1\<rparr>"
    and "r' = r\<lparr>col_current_seaweed_need := Some (current_seaweed_need s),
                 col_current_area_built := Some (current_area_built s),
                 col_current_area_used := Some (current_area_used s),
                 col_current_seaweed := Some (current_seaweed s),
                 col_current_density := Some (current_density s),
                 col_cumulative_harvest_for_food := Some (cumulative_harvest_for_food s)\<rparr>"
  using assms by (auto simp: finish_day_def Let_def)

lemma day_stepE:
  assumes "day_step c d s r = Inr (s', r')"
  obtains s1 r1 ssf agr where
    "build_area c d s r = (s1, r1)"
    "self_shading (current_density s / 1000) = Inr ssf"
    "growth_rate c d ssf = Inr agr" "0 \<le> agr" "agr \<le> 2" "current_area_used s \<noteq> 0"
    "(current_seaweed s * agr / current_area_used s < max_density c \<and>
        (s', r') = finish_day
           (s1\<lparr>current_seaweed := current_seaweed s * agr,
               current_density := current_seaweed s * agr / current_area_used s\<rparr>)
           (r1\<lparr>col_actual_growth_rate_multiplicator := Some agr\<rparr>)) \<or>
     (current_seaweed s * agr / current_area_used s \<ge> max_density c \<and>
        (\<exists>s4 r3. harvest c
           (s1\<lparr>current_seaweed := current_seaweed s * agr,
               current_density := current_seaweed s * agr / current_area_used s\<rparr>)
           (r1\<lparr>col_actual_growth_rate_multiplicator := Some agr\<rparr>) = Inr (s4, r3) \<and>
           (s', r') = finish_day s4 r3))"
proof -
  obtain s1 r1 where b: "build_area c d s r = (s1, r1)" by (cases "build_area c d s r")
  note f = build_area_fields [OF b]
  from assms b obtain ssf where ss: "self_shading (current_density s / 1000) = Inr ssf"
    by (auto simp: day_step_def f split: sum.splits)
  from assms b ss obtain agr where g: "growth_rate c d ssf = Inr agr"
    by (auto simp: day_step_def f split: sum.splits)
  from assms b ss g have rng: "0 \<le> agr" "agr \<le> 2"
    by (auto simp: day_step_def f Let_def split: if_splits)
  from assms b ss g rng have u: "current_area_used s \<noteq> 0"
    by (auto simp: day_step_def f Let_def split: if_splits)
  from assms b ss g rng u have
    "(current_seaweed s * agr / current_area_used s < max_density c \<and>
        (s', r') = finish_day
           (s1\<lparr>current_seaweed := current_seaweed s * agr,
               current_density := current_seaweed s * agr / current_area_used s\<rparr>)
           (r1\<lparr>col_actual_growth_rate_multiplicator := Some agr\<rparr>)) \<or>
     (current_seaweed s * agr / current_area_used s \<ge> max_density c \<and>
        (\<exists>s4 r3. harvest c
           (s1\<lparr>current_seaweed := current_seaweed s * agr,
               current_density := current_seaweed s * agr / current_area_used s\<rparr>)
           (r1\<lparr>col_actual_growth_rate_multiplicator := Some agr\<rparr>) = Inr (s4, r3) \<and>
           (s', r') = finish_day s4 r3))"
    by (auto simp: day_step_def f Let_def split: if_splits sum.splits)
  with b ss g rng u show thesis by (rule that)
qed

lemma day_step_record:
  assumes "day_step c d s r = Inr (s', r')"
  shows "col_current_area_built r' = Some (current_area_built s')"
    and "col_current_area_used r' = Some (current_area_used s')"
    and "col_current_seaweed r' = Some (current_seaweed s')"
    and "col_current_density r' = Some (current_density s')"
    and "col_cumulative_harvest_for_food r' = Some (cumulative_harvest_for_food s')"
  using assms
  by (auto elim!: day_stepE simp: finish_day_def Let_def)

lemma day_step_built:
  assumes "day_step c d s r = Inr (s', r')"
  shows "current_area_built s' =
       (if real d > initial_lag c \<and> current_area_built s < max_area c
        then (if current_area_built s + growth_area_per_day c s d > max_area c
              then max_area c
              else current_area_built s + growth_area_per_day c s d)
        else current_area_built s)"
proof -
  from assms obtain s1 r1 where b: "build_area c d s r = (s1, r1)"
    and "current_area_built s' = current_area_built s1"
    by (elim day_stepE) (auto simp: finish_day_def Let_def dest!: harvest_state)
  with build_area_built [OF b] show ?thesis by simp
qed

lemma day_step_cumulative:
  assumes "day_step c d s r = Inr (s', r')"
  shows "cumulative_harvest_for_food s \<le> cumulative_harvest_for_food s'"
  using assms
  by (elim day_stepE)
     (auto simp: finish_day_def Let_def dest!: harvest_state build_area_fields)


lemma day_step_multiplier:
  assumes "day_step c d s r = Inr (s', r')"
  shows "\<exists>ssf agr. self_shading (current_density s / 1000) = Inr ssf \<and>
           growth_rate c d ssf = Inr agr \<and>
           col_actual_growth_rate_multiplicator r' = Some agr \<and>
           current_density s' = current_seaweed s * agr / current_area_used s"
  using assms
  by (elim day_stepE)
     (auto simp: finish_day_def Let_def dest!: harvest_state build_area_fields)

text \<open>A day without harvest: the harvest cells keep their value.\<close>

lemma day_step_no_harvest:
  assumes "day_step c d s r = Inr (s', r')"
      and "col_harvest_intervall r = None"
      and "col_harvest_intervall r' = None"
  shows "current_density s' < max_density c"
    and "current_area_used s' = current_area_used s"
    and "\<exists>agr. col_actual_growth_rate_multiplicator r' = Some agr \<and>
           current_seaweed s' = current_seaweed s * agr"
    and "harvest_intervall s' = harvest_intervall s + 1"
  using assms
  by (auto elim!: day_stepE simp: finish_day_def Let_def
      dest!: harvest_state build_area_fields)

lemma day_step_harvest:
  assumes "day_step c d s r = Inr (s', r')"
      and "col_harvest_intervall r = None"
      and "col_harvest_intervall r' \<noteq> None"
  shows "max_density c \<le> current_density s'"
    and "current_area_used s' = current_area_built s'"
    and "col_harvest_intervall r' = Some (real (harvest_intervall s))"
    and "harvest_intervall s' = 1"
  using assms
  by (auto elim!: day_stepE simp: finish_day_def Let_def
      dest!: harvest_state build_area_fields)

section \<open>Facts about the loop\<close>

lemma run_days_SucE:
  assumes "run_days c (Suc n) = Inr (s', df')"
  obtains s df r where "run_days c n = Inr (s, df)"
    and "day_step c n s (df ! n) = Inr (s', r)" and "df' = df[n := r]"
  using assms by (auto split: sum.splits prod.splits)

lemma run_days_length:
  "run_days c n = Inr (s, df) \<Longrightarrow> length df = days_to_run c"
proof (induction n arbitrary: s df)
  case 0
  then show ?case by auto
next
  case (Suc n)
  from Suc.prems obtain s0 df0 r where "run_days c n = Inr (s0, df0)" and "df = df0[n := r]"
    by (rule run_days_SucE)
  with Suc.IH show ?case by simp
qed

lemma run_days_unwritten:
  "run_days c n = Inr (s, df) \<Longrightarrow> n \<le> i \<Longrightarrow> i < days_to_run c \<Longrightarrow> df ! i = empty_row"
proof (induction n arbitrary: s df)
  case 0
  then show ?case by auto
next
  case (Suc n)
  from Suc.prems(1) obtain s0 df0 r where r: "run_days c n = Inr (s0, df0)"
    and df: "df = df0[n := r]"
    by (rule run_days_SucE)
  from Suc.IH [OF r] Suc.prems have "df0 ! i = empty_row" by simp
  with df Suc.prems show ?case by simp
qed

lemma run_days_prefix:
  "run_days c n = Inr (s, df) \<Longrightarrow> m \<le> n \<Longrightarrow>
     \<exists>s' df'. run_days c m = Inr (s', df') \<and> (\<forall>i<m. df' ! i = df ! i)"
proof (induction n arbitrary: s df)
  case 0
  then show ?case by auto
next
  case (Suc n)
  show ?case
  proof (cases "m = Suc n")
    case True
    with Suc.prems show ?thesis by auto
  next
    case False
    with Suc.prems have mn: "m \<le> n" by simp
    from Suc.prems(1) obtain s0 df0 r where r: "run_days c n = Inr (s0, df0)"
      and df: "df = df0[n := r]"
      by (rule run_days_SucE)
    from Suc.IH [OF r mn] obtain s' df' where "run_days c m = Inr (s', df')"
      and "\<forall>i<m. df' ! i = df0 ! i" by blast
    with df mn show ?thesis by auto
  qed
qed

text \<open>
  In a data frame produced by \<open>n\<close> days, the row of the day \<open>i < n\<close> is the row written
  by the body of the loop on day \<open>i\<close>, started on the empty row.
\<close>

lemma run_days_day:
  assumes run: "run_days c n = Inr (s, df)" and i: "i < n" and n: "n \<le> days_to_run c"
  obtains s0 df0 s1 where "run_days c i = Inr (s0, df0)"
    and "day_step c i s0 empty_row = Inr (s1, df ! i)"
    and "run_days c (Suc i) = Inr (s1, df0[i := df ! i])"
proof -
  from i have "Suc i \<le> n" by simp
  from run_days_prefix [OF run this] obtain s1 df1
    where r1: "run_days c (Suc i) = Inr (s1, df1)" and eq: "df1 ! i = df ! i" by auto
  from r1 obtain s0 df0 r where r0: "run_days c i = Inr (s0, df0)"
    and st: "day_step c i s0 (df0 ! i) = Inr (s1, r)" and df1: "df1 = df0[i := r]"
    by (rule run_days_SucE)
  from i n have id: "i < days_to_run c" by simp
  with run_days_unwritten [OF r0] have e: "df0 ! i = empty_row" by simp
  from run_days_length [OF r0] id df1 have "df1 ! i = r" by simp
  with eq have "r = df ! i" by simp
  with r0 st e r1 df1 show thesis by (auto intro: that)
qed

lemma run_days_fail:
  "run_days c n = Inl e \<Longrightarrow> n \<le> m \<Longrightarrow> run_days c m = Inl e"
  by (induction m) (auto simp: le_Suc_eq)

lemma seaweed_growth_run:
  "seaweed_growth c = Inr (s, df) \<Longrightarrow>
     initial_area_used c \<noteq> 0 \<and> run_days c (days_to_run c) = Inr (s, df)"
  by (auto simp: seaweed_growth_def split: if_splits)

text \<open>The equations that evaluate a run on concrete arguments.\<close>

lemmas run_eval = seaweed_growth_def init_state_def day_step_def build_area_def
  module_area_of_day_def growth_area_per_day_def self_shading_def growth_rate_def
  harvest_def finish_day_def empty_row_def Let_def example_config_def

section \<open>Cumulative food harvest\<close>

lemma run_days_cumulative:
  "run_days c n = Inr (s, df) \<Longrightarrow> m \<le> n \<Longrightarrow> run_days c m = Inr (s', df') \<Longrightarrow>
     cumulative_harvest_for_food s' \<le> cumulative_harvest_for_food s"
proof (induction n arbitrary: s df)
  case 0
  then show ?case by auto
next
  case (Suc n)
  show ?case
  proof (cases "m = Suc n")
    case True
    with Suc.prems show ?thesis by simp
  next
    case False
    with Suc.prems have mn: "m \<le> n" by simp
    from Suc.prems(1) obtain s0 df0 r where r: "run_days c n = Inr (s0, df0)"
      and st: "day_step c n s0 (df0 ! n) = Inr (s, r)"
      by (rule run_days_SucE)
    from Suc.IH [OF r mn Suc.prems(3)] day_step_cumulative [OF st] show ?thesis by simp
  qed
qed

text \<open>
  Claim C6. In the data frame of a completed run, the cumulative food-harvest mass is
  monotonically non-decreasing with the day index. The food harvest of a day is only
  added in the branch where the need does not exceed the harvest after loss, so it is
  never negative; the bounds on the loss fraction, the densities and the initial areas
  that the claim assumes are not needed.
\<close>

theorem cumulative_harvest_monotone:
  assumes "seaweed_growth c = Inr (s, df)" and "i \<le> j" and "j < days_to_run c"
  shows "\<exists>a b. col_cumulative_harvest_for_food (df ! i) = Some a \<and>
           col_cumulative_harvest_for_food (df ! j) = Some b \<and> a \<le> b"
proof -
  from assms(1) have run: "run_days c (days_to_run c) = Inr (s, df)"
    by (simp add: seaweed_growth_run)
  from assms have i: "i < days_to_run c" by simp
  from run i obtain si dfi si' where
    "day_step c i si empty_row = Inr (si', df ! i)"
    and ri: "run_days c (Suc i) = Inr (si', dfi[i := df ! i])"
    by (rule run_days_day) simp
  then have a: "col_cumulative_harvest_for_food (df ! i) = Some (cumulative_harvest_for_food si')"
    by (simp add: day_step_record)
  from run assms(3) obtain sj dfj sj' where
    "day_step c j sj empty_row = Inr (sj', df ! j)"
    and rj: "run_days c (Suc j) = Inr (sj', dfj[j := df ! j])"
    by (rule run_days_day) simp
  then have b: "col_cumulative_harvest_for_food (df ! j) = Some (cumulative_harvest_for_food sj')"
    by (simp add: day_step_record)
  from assms(2) have "Suc i \<le> Suc j" by simp
  from run_days_cumulative [OF rj this ri] a b show ?thesis by simp
qed

theorem cumulative_harvest_monotone_witness:
  "\<exists>s df. seaweed_growth (example_config 100 1 1 0 100 (GrfFloat 1) 2) = Inr (s, df) \<and>
     (0::nat) \<le> 1 \<and> 1 < days_to_run (example_config 100 1 1 0 100 (GrfFloat 1) 2) \<and>
     (\<exists>a b. col_cumulative_harvest_for_food (df ! 0) = Some a \<and>
           col_cumulative_harvest_for_food (df ! 1) = Some b \<and> a \<le> b)"
proof -
  obtain s df where r: "seaweed_growth (example_config 100 1 1 0 100 (GrfFloat 1) 2) = Inr (s, df)"
    by (simp add: run_eval numeral_2_eq_2)
  have d: "1 < days_to_run (example_config 100 1 1 0 100 (GrfFloat 1) 2)"
    by (simp add: example_config_def)
  from cumulative_harvest_monotone [OF r _ d, of 0] r d show ?thesis by simp
qed

section \<open>Built area\<close>

lemma run_days_built_le:
  "run_days c n = Inr (s, df) \<Longrightarrow> initial_area_built c \<le> max_area c \<Longrightarrow>
     current_area_built s \<le> max_area c"
proof (induction n arbitrary: s df)
  case 0
  then show ?case by (auto simp: init_state_def)
next
  case (Suc n)
  from Suc.prems(1) obtain s0 df0 r where r: "run_days c n = Inr (s0, df0)"
    and st: "day_step c n s0 (df0 ! n) = Inr (s, r)"
    by (rule run_days_SucE)
  from Suc.IH [OF r Suc.prems(2)] day_step_built [OF st] show ?case
    by (simp split: if_splits)
qed

lemma run_days_built_stays:
  "run_days c n = Inr (s, df) \<Longrightarrow> m \<le> n \<Longrightarrow> run_days c m = Inr (s', df') \<Longrightarrow>
     current_area_built s' = max_area c \<Longrightarrow> current_area_built s = max_area c"
proof (induction n arbitrary: s df)
  case 0
  then show ?case by auto
next
  case (Suc n)
  show ?case
  proof (cases "m = Suc n")
    case True
    with Suc.prems show ?thesis by simp
  next
    case False
    with Suc.prems have mn: "m \<le> n" by simp
    from Suc.prems(1) obtain s0 df0 r where r: "run_days c n = Inr (s0, df0)"
      and st: "day_step c n s0 (df0 ! n) = Inr (s, r)"
      by (rule run_days_SucE)
    from Suc.IH [OF r mn Suc.prems(3) Suc.prems(4)] day_step_built [OF st]
    show ?thesis by simp
  qed
qed

text \<open>
  Claim C5. In a completed run whose initial built area does not exceed \<open>max_area\<close>,
  the built area recorded for every day is at most \<open>max_area\<close>; on a day after the lag
  on which the built area is below \<open>max_area\<close> and adding the usable area of the day
  would exceed it, the recorded built area is exactly \<open>max_area\<close>; and once the recorded
  built area is \<open>max_area\<close> it is \<open>max_area\<close> on every later day.
\<close>

theorem built_area_capped:
  assumes le: "initial_area_built c \<le> max_area c"
      and sg: "seaweed_growth c = Inr (s, df)"
  shows "(\<forall>i<days_to_run c. \<exists>b. col_current_area_built (df ! i) = Some b \<and> b \<le> max_area c) \<and>
     (\<forall>i s_i df_i. i < days_to_run c \<and> run_days c i = Inr (s_i, df_i) \<and>
          initial_lag c < real i \<and> current_area_built s_i < max_area c \<and>
          max_area c < current_area_built s_i + growth_area_per_day c s_i i \<longrightarrow>
          col_current_area_built (df ! i) = Some (max_area c)) \<and>
     (\<forall>i j. i \<le> j \<and> j < days_to_run c \<and>
          col_current_area_built (df ! i) = Some (max_area c) \<longrightarrow>
          col_current_area_built (df ! j) = Some (max_area c))"
proof (intro conjI allI impI)
  from sg have run: "run_days c (days_to_run c) = Inr (s, df)"
    by (simp add: seaweed_growth_run)
  {
    fix i assume i: "i < days_to_run c"
    from run i obtain si dfi si' where
      st: "day_step c i si empty_row = Inr (si', df ! i)"
      and ri: "run_days c (Suc i) = Inr (si', dfi[i := df ! i])"
      by (rule run_days_day) simp
    from run_days_built_le [OF ri le] day_step_record(1) [OF st]
    show "\<exists>b. col_current_area_built (df ! i) = Some b \<and> b \<le> max_area c"
      by simp
  }
  {
    fix i s_i df_i
    assume h: "i < days_to_run c \<and> run_days c i = Inr (s_i, df_i) \<and>
          initial_lag c < real i \<and> current_area_built s_i < max_area c \<and>
          max_area c < current_area_built s_i + growth_area_per_day c s_i i"
    then have i: "i < days_to_run c" and ri: "run_days c i = Inr (s_i, df_i)" by simp_all
    from run i obtain si dfi si' where
      r0: "run_days c i = Inr (si, dfi)" and st: "day_step c i si empty_row = Inr (si', df ! i)"
      by (rule run_days_day) simp
    from r0 ri have "si = s_i" by simp
    with day_step_built [OF st] h have "current_area_built si' = max_area c" by simp
    with st show "col_current_area_built (df ! i) = Some (max_area c)"
      by (simp add: day_step_record)
  }
  {
    fix i j
    assume h: "i \<le> j \<and> j < days_to_run c \<and>
          col_current_area_built (df ! i) = Some (max_area c)"
    then have i: "i < days_to_run c" and j: "j < days_to_run c" by simp_all
    from run i obtain si dfi si' where
      sti: "day_step c i si empty_row = Inr (si', df ! i)"
      and ri: "run_days c (Suc i) = Inr (si', dfi[i := df ! i])"
      by (rule run_days_day) simp
    from run j obtain sj dfj sj' where
      stj: "day_step c j sj empty_row = Inr (sj', df ! j)"
      and rj: "run_days c (Suc j) = Inr (sj', dfj[j := df ! j])"
      by (rule run_days_day) simp
    from sti h have "current_area_built si' = max_area c" by (simp add: day_step_record)
    moreover from h have "Suc i \<le> Suc j" by simp
    ultimately have "current_area_built sj' = max_area c"
      using run_days_built_stays [OF rj _ ri] by simp
    with stj show "col_current_area_built (df ! j) = Some (max_area c)"
      by (simp add: day_step_record)
  }
qed

theorem built_area_capped_witness:
  "\<exists>s df s1 df1.
     initial_area_built (example_config 1 9 1 (- 2) (- 75) (GrfFloat 0) 3)
       \<le> max_area (example_config 1 9 1 (- 2) (- 75) (GrfFloat 0) 3) \<and>
     seaweed_growth (example_config 1 9 1 (- 2) (- 75) (GrfFloat 0) 3) = Inr (s, df) \<and>
     run_days (example_config 1 9 1 (- 2) (- 75) (GrfFloat 0) 3) 1 = Inr (s1, df1) \<and>
     current_area_built s1 = 9 \<and>
     growth_area_per_day (example_config 1 9 1 (- 2) (- 75) (GrfFloat 0) 3) s1 1 = 3 / 2 \<and>
     col_current_area_built (df ! 0) = Some 9 \<and>
     col_current_area_built (df ! 1) = Some 10 \<and>
     col_current_area_built (df ! 2) = Some 10"
proof -
  let ?c = "example_config 1 9 1 (- 2) (- 75) (GrfFloat 0) 3"
  have le: "initial_area_built ?c \<le> max_area ?c" by (simp add: example_config_def)
  obtain s1 df1 where r1: "run_days ?c 1 = Inr (s1, df1)"
    and b1: "current_area_built s1 = 9" and g1: "growth_area_per_day ?c s1 1 = 3 / 2"
    by (simp add: run_eval)
  obtain s df where sg: "seaweed_growth ?c = Inr (s, df)"
    and d0: "col_current_area_built (df ! 0) = Some 9"
    by (simp add: run_eval numeral_3_eq_3)
  have m: "max_area ?c = 10" "days_to_run ?c = 3" "initial_lag ?c = 0"
    by (simp_all add: example_config_def)
  note t = built_area_capped [OF le sg]
  note clamp = t [THEN conjunct2, THEN conjunct1, rule_format]
  note stays = t [THEN conjunct2, THEN conjunct2, rule_format]
  from clamp [of 1 s1 df1] r1 b1 g1 m
  have d1: "col_current_area_built (df ! 1) = Some 10" by simp
  from stays [of 1 2] d1 m
  have d2: "col_current_area_built (df ! 2) = Some 10" by simp
  from le sg r1 b1 g1 d0 d1 d2 show ?thesis
    by (intro exI [of _ s] exI [of _ df] exI [of _ s1] exI [of _ df1]) simp
qed

section \<open>The logistic build-out curve is positive\<close>






section \<open>Used area and built area\<close>








section \<open>The harvest\<close>

text \<open>
  Claim C1. In the branch of the harvest where the need exceeds the harvest after loss,
  the claim takes the newly used area to be the harvest after loss divided by
  \<open>min_density\<close>. The run below harvests on day 0 with a harvest after loss of 180 and
  a need of 900 at \<open>min_density = 100\<close>: the code records a newly used area of 9 (the
  need divided by \<open>min_density\<close>) where the claim gives 180 / 100, and the used area
  becomes 10 where the claim gives 1 + 180 / 100. The biomass is the remaining 100 plus
  the 180 harvested, and no food harvest is recorded, as the claim says.
\<close>

theorem harvest_case_a_new_area_used:
  "\<not> isl (seaweed_growth (example_config 300 10 1 0 100 (GrfFloat 0) 1)) \<and>
   col_harvest_wet_with_loss
     (snd (projr (seaweed_growth (example_config 300 10 1 0 100 (GrfFloat 0) 1))) ! 0) = Some 180 \<and>
   col_current_seaweed_need
     (snd (projr (seaweed_growth (example_config 300 10 1 0 100 (GrfFloat 0) 1))) ! 0) = Some 900 \<and>
   col_new_area_used
     (snd (projr (seaweed_growth (example_config 300 10 1 0 100 (GrfFloat 0) 1))) ! 0) = Some 9 \<and>
   col_new_area_used
     (snd (projr (seaweed_growth (example_config 300 10 1 0 100 (GrfFloat 0) 1))) ! 0)
     \<noteq> Some (180 / min_density (example_config 300 10 1 0 100 (GrfFloat 0) 1)) \<and>
   col_current_area_used
     (snd (projr (seaweed_growth (example_config 300 10 1 0 100 (GrfFloat 0) 1))) ! 0) = Some 10 \<and>
   col_current_seaweed
     (snd (projr (seaweed_growth (example_config 300 10 1 0 100 (GrfFloat 0) 1))) ! 0) = Some 280 \<and>
   col_harvest_for_food
     (snd (projr (seaweed_growth (example_config 300 10 1 0 100 (GrfFloat 0) 1))) ! 0) = None"
  by (simp add: run_eval)

section \<open>The density recorded on a harvest day\<close>

text \<open>
  The variable \<open>current_density\<close> is assigned once per day, at line 157, before the
  harvest test. On a harvest day the cell written at line 209 is therefore the density
  that triggered the harvest: the biomass after growth divided by the used area before
  the harvest, a value of at least \<open>max_density\<close>.
\<close>

lemma harvest_day_records_trigger_density:
  assumes sg: "seaweed_growth c = Inr (s, df)"
      and i: "i < days_to_run c"
      and ri: "run_days c i = Inr (s_i, df_i)"
      and h: "col_harvest_intervall (df ! i) \<noteq> None"
  shows "\<exists>agr. col_actual_growth_rate_multiplicator (df ! i) = Some agr \<and>
           col_current_density (df ! i) = Some (current_seaweed s_i * agr / current_area_used s_i) \<and>
           max_density c \<le> current_seaweed s_i * agr / current_area_used s_i"
proof -
  from sg have run: "run_days c (days_to_run c) = Inr (s, df)"
    by (simp add: seaweed_growth_run)
  from run i obtain si dfi si' where r0: "run_days c i = Inr (si, dfi)"
    and st: "day_step c i si empty_row = Inr (si', df ! i)"
    by (rule run_days_day) simp
  from r0 ri have eq: "si = s_i" by simp
  from day_step_multiplier [OF st] obtain agr where
    a: "col_actual_growth_rate_multiplicator (df ! i) = Some agr"
    and d: "current_density si' = current_seaweed si * agr / current_area_used si"
    by blast
  have "max_density c \<le> current_density si'"
    using day_step_harvest(1) [OF st _ h] by (simp add: empty_row_def)
  with a d eq day_step_record(4) [OF st] show ?thesis by simp
qed

text \<open>
  Claim C2. The density stored in the record of a harvest day is to be the density
  after the harvest, at most \<open>max_density\<close>. In the run below the harvest fires on
  day 0: the record of the day holds the density 500, above \<open>max_density = 300\<close>, beside
  the biomass 100 and the used area 1 that the harvest leaves (a density of 100). The
  stale 500 is also what day 1 passes to the self-shading function: its multiplier is
  \<open>1 + exp (- 0.513 * (0.5 - 0.4))\<close>, below the multiplier 2 of the density 100.
\<close>

theorem harvest_day_density_stale:
  "\<not> isl (seaweed_growth (example_config 250 1 1 0 100 (GrfFloat 1) 2)) \<and>
   col_harvest_intervall
     (snd (projr (seaweed_growth (example_config 250 1 1 0 100 (GrfFloat 1) 2))) ! 0) = Some 0 \<and>
   col_current_density
     (snd (projr (seaweed_growth (example_config 250 1 1 0 100 (GrfFloat 1) 2))) ! 0) = Some 500 \<and>
   \<not> 500 \<le> max_density (example_config 250 1 1 0 100 (GrfFloat 1) 2) \<and>
   col_current_seaweed
     (snd (projr (seaweed_growth (example_config 250 1 1 0 100 (GrfFloat 1) 2))) ! 0) = Some 100 \<and>
   col_current_area_used
     (snd (projr (seaweed_growth (example_config 250 1 1 0 100 (GrfFloat 1) 2))) ! 0) = Some 1 \<and>
   col_actual_growth_rate_multiplicator
     (snd (projr (seaweed_growth (example_config 250 1 1 0 100 (GrfFloat 1) 2))) ! 1)
      = Some (1 + exp (- 0.513 * (0.5 - 0.4))) \<and>
   col_actual_growth_rate_multiplicator
     (snd (projr (seaweed_growth (example_config 250 1 1 0 100 (GrfFloat 1) 2))) ! 1)
      \<noteq> Some 2"
  by (simp add: run_eval numeral_2_eq_2)

section \<open>A run without growth\<close>

lemma growth_rate_zero:
  "growth_rate_fraction c = GrfFloat 0 \<Longrightarrow> growth_rate c d ssf = Inr agr \<Longrightarrow> agr = 1"
  by (auto simp: growth_rate_def split: if_splits)

lemma day_step_zero_growth:
  assumes st: "day_step c d s r = Inr (s', r')"
      and z: "growth_rate_fraction c = GrfFloat 0"
  shows "col_actual_growth_rate_multiplicator r' = Some 1"
    and "current_seaweed s / current_area_used s < max_density c \<Longrightarrow>
           current_seaweed s' = current_seaweed s \<and> current_area_used s' = current_area_used s"
proof -
  from day_step_multiplier [OF st] z
  show "col_actual_growth_rate_multiplicator r' = Some 1"
    by (auto dest: growth_rate_zero)
next
  assume low: "current_seaweed s / current_area_used s < max_density c"
  from st show "current_seaweed s' = current_seaweed s \<and> current_area_used s' = current_area_used s"
  proof (rule day_stepE)
    fix s1 r1 ssf agr
    assume ba: "build_area c d s r = (s1, r1)"
      and g: "growth_rate c d ssf = Inr agr"
      and alt: "(current_seaweed s * agr / current_area_used s < max_density c \<and>
        (s', r') = finish_day
           (s1\<lparr>current_seaweed := current_seaweed s * agr,
               current_density := current_seaweed s * agr / current_area_used s\<rparr>)
           (r1\<lparr>col_actual_growth_rate_multiplicator := Some agr\<rparr>)) \<or>
       (current_seaweed s * agr / current_area_used s \<ge> max_density c \<and>
        (\<exists>s4 r3. harvest c
           (s1\<lparr>current_seaweed := current_seaweed s * agr,
               current_density := current_seaweed s * agr / current_area_used s\<rparr>)
           (r1\<lparr>col_actual_growth_rate_multiplicator := Some agr\<rparr>) = Inr (s4, r3) \<and>
           (s', r') = finish_day s4 r3))"
    from g z have "agr = 1" by (rule growth_rate_zero [rotated])
    with alt low build_area_fields [OF ba] show ?thesis
      by (auto simp: finish_day_def Let_def)
  qed
qed

lemma run_days_zero_growth:
  "run_days c n = Inr (s, df) \<Longrightarrow> growth_rate_fraction c = GrfFloat 0 \<Longrightarrow>
     initial_seaweed c / initial_area_used c < max_density c \<Longrightarrow>
     current_seaweed s = initial_seaweed c \<and> current_area_used s = initial_area_used c"
proof (induction n arbitrary: s df)
  case 0
  then show ?case by (auto simp: init_state_def)
next
  case (Suc n)
  from Suc.prems(1) obtain s0 df0 r where r: "run_days c n = Inr (s0, df0)"
    and st: "day_step c n s0 (df0 ! n) = Inr (s, r)"
    by (rule run_days_SucE)
  from Suc.IH [OF r Suc.prems(2,3)] day_step_zero_growth(2) [OF st Suc.prems(2)] Suc.prems(3)
  show ?case by simp
qed

text \<open>
  Claim C9, amended. In a completed run with the constant growth-rate fraction 0, the
  growth multiplier recorded for every day is exactly 1; if moreover the initial density
  is below \<open>max_density\<close>, so that no harvest fires, the biomass recorded for every day is
  the initial biomass.
\<close>

theorem zero_growth_run:
  assumes sg: "seaweed_growth c = Inr (s, df)"
      and z: "growth_rate_fraction c = GrfFloat 0"
      and i: "i < days_to_run c"
  shows "col_actual_growth_rate_multiplicator (df ! i) = Some 1 \<and>
     (initial_seaweed c / initial_area_used c < max_density c \<longrightarrow>
        col_current_seaweed (df ! i) = Some (initial_seaweed c))"
proof -
  from sg have run: "run_days c (days_to_run c) = Inr (s, df)"
    by (simp add: seaweed_growth_run)
  from run i obtain si dfi si' where
    st: "day_step c i si empty_row = Inr (si', df ! i)"
    and r1: "run_days c (Suc i) = Inr (si', dfi[i := df ! i])"
    by (rule run_days_day) simp
  have "col_current_seaweed (df ! i) = Some (initial_seaweed c)"
    if "initial_seaweed c / initial_area_used c < max_density c"
    using run_days_zero_growth [OF r1 z that] day_step_record(3) [OF st] by simp
  with day_step_zero_growth(1) [OF st z] show ?thesis by simp
qed

theorem zero_growth_run_witness:
  "\<exists>s df. seaweed_growth (example_config 100 1 1 0 100 (GrfFloat 0) 2) = Inr (s, df) \<and>
     growth_rate_fraction (example_config 100 1 1 0 100 (GrfFloat 0) 2) = GrfFloat 0 \<and>
     1 < days_to_run (example_config 100 1 1 0 100 (GrfFloat 0) 2) \<and>
     initial_seaweed (example_config 100 1 1 0 100 (GrfFloat 0) 2)
       / initial_area_used (example_config 100 1 1 0 100 (GrfFloat 0) 2)
       < max_density (example_config 100 1 1 0 100 (GrfFloat 0) 2) \<and>
     col_actual_growth_rate_multiplicator (df ! 1) = Some 1 \<and>
     col_current_seaweed (df ! 1) = Some 100"
proof -
  let ?c = "example_config 100 1 1 0 100 (GrfFloat 0) 2"
  obtain s df where sg: "seaweed_growth ?c = Inr (s, df)"
    by (simp add: run_eval numeral_2_eq_2)
  have c: "growth_rate_fraction ?c = GrfFloat 0" "1 < days_to_run ?c"
    "initial_seaweed ?c / initial_area_used ?c < max_density ?c" "initial_seaweed ?c = 100"
    by (simp_all add: example_config_def)
  from zero_growth_run [OF sg c(1) c(2)] c(3,4)
  have "col_actual_growth_rate_multiplicator (df ! 1) = Some 1 \<and>
     col_current_seaweed (df ! 1) = Some 100" by simp
  with sg c show ?thesis by (intro exI [of _ s] exI [of _ df]) simp
qed

theorem zero_growth_biomass_counterexample:
  "growth_rate_fraction (example_config 300 1 1 0 100 (GrfFloat 0) 1) = GrfFloat 0 \<and>
   \<not> isl (seaweed_growth (example_config 300 1 1 0 100 (GrfFloat 0) 1)) \<and>
   initial_seaweed (example_config 300 1 1 0 100 (GrfFloat 0) 1) = 300 \<and>
   col_actual_growth_rate_multiplicator
     (snd (projr (seaweed_growth (example_config 300 1 1 0 100 (GrfFloat 0) 1))) ! 0) = Some 1 \<and>
   col_current_seaweed
     (snd (projr (seaweed_growth (example_config 300 1 1 0 100 (GrfFloat 0) 1))) ! 0) = Some 100"
  by (simp add: run_eval)

section \<open>The shape of the growth-rate fraction\<close>

lemma day_step_growth_error:
  assumes d: "0 < current_density s"
      and g: "growth_rate c n ssf = Inl e" "self_shading (current_density s / 1000) = Inr ssf"
  shows "\<exists>v. day_step c n s r = Inl (e, r\<lparr>col_new_module_area_per_day := Some v\<rparr>)"
proof -
  obtain s1 r1 where b: "build_area c n s r = (s1, r1)" by (cases "build_area c n s r")
  note f = build_area_fields [OF b]
  from f obtain v where "r1 = r\<lparr>col_new_module_area_per_day := Some v\<rparr>" by blast
  with b g f show ?thesis by (simp add: day_step_def)
qed

lemma self_shading_defined: "0 < d \<Longrightarrow> \<exists>ssf. self_shading d = Inr ssf"
  by (simp add: self_shading_def)

lemma run_days_stops:
  assumes r: "run_days c n = Inr (s, df)"
      and st: "day_step c n s (df ! n) = Inl (e, r')"
      and le: "n < m"
  shows "run_days c m = Inl (e, df[n := r'])"
proof -
  from r st have "run_days c (Suc n) = Inl (e, df[n := r'])" by simp
  moreover from le have "Suc n \<le> m" by simp
  ultimately show ?thesis by (rule run_days_fail)
qed

text \<open>
  Claim C3, amended. When the growth-rate fraction is neither a float nor a list and
  the initial used area is not zero, a run of zero days returns its empty data frame
  without failing; a run of at least one day with a positive initial density fails
  with TypeError inside the loop, on day 0, when the row of day 0 already holds the
  cell of the area built on the day and no other cell.
\<close>

theorem unsupported_growth_input:
  assumes o: "growth_rate_fraction c = GrfOther"
      and u: "initial_area_used c \<noteq> 0"
  shows "(days_to_run c = 0 \<longrightarrow> seaweed_growth c = Inr (init_state c, [])) \<and>
     (0 < days_to_run c \<and> 0 < initial_seaweed c / initial_area_used c \<longrightarrow>
        (\<exists>v. seaweed_growth c =
           Inl (TypeError, (replicate (days_to_run c) empty_row)
                  [0 := empty_row\<lparr>col_new_module_area_per_day := Some v\<rparr>])))"
proof (intro conjI impI)
  assume "days_to_run c = 0"
  with u show "seaweed_growth c = Inr (init_state c, [])"
    by (simp add: seaweed_growth_def)
next
  assume h: "0 < days_to_run c \<and> 0 < initial_seaweed c / initial_area_used c"
  let ?df = "replicate (days_to_run c) empty_row"
  from h have d: "0 < current_density (init_state c)" by (simp add: init_state_def)
  then have "0 < current_density (init_state c) / 1000" by simp
  then obtain ssf where ss: "self_shading (current_density (init_state c) / 1000) = Inr ssf"
    using self_shading_defined by blast
  from o have "growth_rate c 0 ssf = Inl TypeError" by (simp add: growth_rate_def)
  from day_step_growth_error [OF d this ss] obtain v where
    "day_step c 0 (init_state c) (?df ! 0) =
       Inl (TypeError, (?df ! 0)\<lparr>col_new_module_area_per_day := Some v\<rparr>)"
    by blast
  moreover from h have "?df ! 0 = empty_row" by simp
  ultimately have st: "day_step c 0 (init_state c) (?df ! 0) =
       Inl (TypeError, empty_row\<lparr>col_new_module_area_per_day := Some v\<rparr>)"
    by simp
  have r0: "run_days c 0 = Inr (init_state c, ?df)" by simp
  from h have "0 < days_to_run c" by simp
  from run_days_stops [OF r0 st this] u
  show "\<exists>v. seaweed_growth c =
           Inl (TypeError, ?df [0 := empty_row\<lparr>col_new_module_area_per_day := Some v\<rparr>])"
    by (auto simp: seaweed_growth_def)
qed

theorem unsupported_growth_input_witness:
  "growth_rate_fraction (example_config 1 1 1 0 100 GrfOther 0) = GrfOther \<and>
   initial_area_used (example_config 1 1 1 0 100 GrfOther 0) \<noteq> 0 \<and>
   days_to_run (example_config 1 1 1 0 100 GrfOther 0) = 0 \<and>
   seaweed_growth (example_config 1 1 1 0 100 GrfOther 0)
     = Inr (init_state (example_config 1 1 1 0 100 GrfOther 0), []) \<and>
   growth_rate_fraction (example_config 1 1 1 0 100 GrfOther 2) = GrfOther \<and>
   initial_area_used (example_config 1 1 1 0 100 GrfOther 2) \<noteq> 0 \<and>
   0 < days_to_run (example_config 1 1 1 0 100 GrfOther 2) \<and>
   0 < initial_seaweed (example_config 1 1 1 0 100 GrfOther 2)
         / initial_area_used (example_config 1 1 1 0 100 GrfOther 2) \<and>
   (\<exists>v. seaweed_growth (example_config 1 1 1 0 100 GrfOther 2) =
      Inl (TypeError, [empty_row\<lparr>col_new_module_area_per_day := Some v\<rparr>, empty_row]))"
proof -
  have a: "growth_rate_fraction (example_config 1 1 1 0 100 GrfOther 0) = GrfOther"
    "initial_area_used (example_config 1 1 1 0 100 GrfOther 0) \<noteq> 0"
    "days_to_run (example_config 1 1 1 0 100 GrfOther 0) = 0"
    by (simp_all add: example_config_def)
  have b: "growth_rate_fraction (example_config 1 1 1 0 100 GrfOther 2) = GrfOther"
    "initial_area_used (example_config 1 1 1 0 100 GrfOther 2) \<noteq> 0"
    "0 < days_to_run (example_config 1 1 1 0 100 GrfOther 2)"
    "0 < initial_seaweed (example_config 1 1 1 0 100 GrfOther 2)
         / initial_area_used (example_config 1 1 1 0 100 GrfOther 2)"
    "days_to_run (example_config 1 1 1 0 100 GrfOther 2) = 2"
    by (simp_all add: example_config_def)
  from unsupported_growth_input [OF a(1,2)] a(3)
  have "seaweed_growth (example_config 1 1 1 0 100 GrfOther 0)
     = Inr (init_state (example_config 1 1 1 0 100 GrfOther 0), [])" by simp
  moreover from unsupported_growth_input [OF b(1,2)] b(3,4,5)
  have "\<exists>v. seaweed_growth (example_config 1 1 1 0 100 GrfOther 2) =
      Inl (TypeError, [empty_row\<lparr>col_new_module_area_per_day := Some v\<rparr>, empty_row])"
    by (simp add: numeral_2_eq_2)
  ultimately show ?thesis using a b by simp
qed

theorem unsupported_growth_input_counterexample:
  "growth_rate_fraction (example_config 1 1 1 0 100 GrfOther 0) = GrfOther \<and>
   \<not> isl (seaweed_growth (example_config 1 1 1 0 100 GrfOther 0)) \<and>
   growth_rate_fraction (example_config 1 1 1 0 100 GrfOther 1) = GrfOther \<and>
   seaweed_growth (example_config 1 1 1 0 100 GrfOther 1)
     = Inl (TypeError, [empty_row\<lparr>col_new_module_area_per_day := Some 0\<rparr>]) \<and>
   col_new_module_area_per_day
     (snd (projl (seaweed_growth (example_config 1 1 1 0 100 GrfOther 1))) ! 0) \<noteq> None"
  by (simp add: run_eval)

section \<open>A per-day sequence of growth-rate fractions\<close>

lemma growth_rate_list_short:
  "growth_rate_fraction c = GrfList gs \<Longrightarrow> length gs \<le> d \<Longrightarrow>
     \<exists>e. growth_rate c d ssf = Inl e"
  by (simp add: growth_rate_def)

lemma seaweed_growth_list_length:
  assumes sg: "seaweed_growth c = Inr (s, df)"
      and l: "growth_rate_fraction c = GrfList gs"
  shows "days_to_run c \<le> length gs"
proof (rule ccontr)
  assume "\<not> days_to_run c \<le> length gs"
  then have i: "length gs < days_to_run c" by simp
  from sg have run: "run_days c (days_to_run c) = Inr (s, df)"
    by (simp add: seaweed_growth_run)
  from run i obtain si dfi si' where
    st: "day_step c (length gs) si empty_row = Inr (si', df ! length gs)"
    by (rule run_days_day) simp
  from day_step_multiplier [OF st] obtain ssf agr
    where "growth_rate c (length gs) ssf = Inr agr" by blast
  with growth_rate_list_short [OF l order_refl, of ssf] show False by auto
qed

lemma growth_rate_list:
  assumes "growth_rate_fraction c = GrfList gs" and "growth_rate c d ssf = Inr agr"
  shows "d < length gs \<and> agr = 1 + (optimal_growth_rate c * (gs ! d) * ssf) / 100"
  using assms by (auto simp: growth_rate_def split: if_splits)

text \<open>
  Claim C8. When the growth-rate fraction is a list \<open>gs\<close>, every day \<open>i\<close> that the
  engine completes has \<open>i\<close> below the length of the list, and the multiplier recorded
  for day \<open>i\<close> is computed from the element \<open>gs ! i\<close> of the day's own index and
  the self-shading factor of the density at the start of the day. A run with a list
  shorter than \<open>days_to_run\<close> never completes; it fails with IndexError on the day whose
  index is the length of the list, when the days before it complete, leave a positive
  density, and all elements lie between 0 and 1 (the assertion of lines 138-141): at the
  failure only the cell of line 122 of that day has been written.
\<close>

theorem growth_list_indexed_by_day:
  assumes l: "growth_rate_fraction c = GrfList gs"
  shows "(i < days_to_run c \<and> run_days c i = Inr (s_i, df_i) \<and>
      run_days c (Suc i) = Inr (s', df') \<longrightarrow>
        i < length gs \<and>
        (\<exists>ssf. self_shading (current_density s_i / 1000) = Inr ssf \<and>
           col_actual_growth_rate_multiplicator (df' ! i) =
             Some (1 + (optimal_growth_rate c * (gs ! i) * ssf) / 100))) \<and>
     (length gs < days_to_run c \<longrightarrow> isl (seaweed_growth c)) \<and>
     (length gs < days_to_run c \<and> list_all (\<lambda>x. x \<le> 1 \<and> x \<ge> 0) gs \<and>
      initial_area_used c \<noteq> 0 \<and>
      run_days c (length gs) = Inr (s, df) \<and> 0 < current_density s \<longrightarrow>
        (\<exists>v. seaweed_growth c =
           Inl (IndexError,
             df[length gs := empty_row\<lparr>col_new_module_area_per_day := Some v\<rparr>])))"
proof (intro conjI impI)
  assume h: "i < days_to_run c \<and> run_days c i = Inr (s_i, df_i) \<and>
      run_days c (Suc i) = Inr (s', df')"
  then have i: "i < days_to_run c" and ri: "run_days c i = Inr (s_i, df_i)"
    and rs: "run_days c (Suc i) = Inr (s', df')" by blast+
  from rs obtain s0 df0 r where r0: "run_days c i = Inr (s0, df0)"
    and st: "day_step c i s0 (df0 ! i) = Inr (s', r)" and df': "df' = df0[i := r]"
    by (rule run_days_SucE)
  from r0 ri have eq: "s0 = s_i" by simp
  from run_days_length [OF r0] i df' have row: "df' ! i = r" by simp
  from day_step_multiplier [OF st] obtain ssf agr where
    ss: "self_shading (current_density s0 / 1000) = Inr ssf"
    and g: "growth_rate c i ssf = Inr agr"
    and m: "col_actual_growth_rate_multiplicator r = Some agr"
    by blast
  note gl = growth_rate_list [OF l g]
  from gl show "i < length gs" by simp
  from ss m gl eq row
  show "\<exists>ssf. self_shading (current_density s_i / 1000) = Inr ssf \<and>
           col_actual_growth_rate_multiplicator (df' ! i) =
             Some (1 + (optimal_growth_rate c * (gs ! i) * ssf) / 100)"
    by auto
next
  assume short: "length gs < days_to_run c"
  show "isl (seaweed_growth c)"
  proof (cases "seaweed_growth c")
    case (Inl e)
    then show ?thesis by simp
  next
    case (Inr p)
    then have "seaweed_growth c = Inr (fst p, snd p)" by simp
    from seaweed_growth_list_length [OF this l] short show ?thesis by simp
  qed
next
  assume h: "length gs < days_to_run c \<and> list_all (\<lambda>x. x \<le> 1 \<and> x \<ge> 0) gs \<and>
      initial_area_used c \<noteq> 0 \<and>
      run_days c (length gs) = Inr (s, df) \<and> 0 < current_density s"
  then have d: "0 < current_density s" and r: "run_days c (length gs) = Inr (s, df)"
    and short: "length gs < days_to_run c" by simp_all
  from d have "0 < current_density s / 1000" by simp
  then obtain f where ss: "self_shading (current_density s / 1000) = Inr f"
    using self_shading_defined by blast
  from l h have "growth_rate c (length gs) f = Inl IndexError"
    by (simp add: growth_rate_def)
  from day_step_growth_error [OF d this ss] obtain v where
    "day_step c (length gs) s (df ! length gs) =
       Inl (IndexError, (df ! length gs)\<lparr>col_new_module_area_per_day := Some v\<rparr>)"
    by blast
  moreover from run_days_unwritten [OF r order_refl short]
  have "df ! length gs = empty_row" .
  ultimately have "day_step c (length gs) s (df ! length gs) =
       Inl (IndexError, empty_row\<lparr>col_new_module_area_per_day := Some v\<rparr>)" by simp
  from run_days_stops [OF r this short] h
  have "seaweed_growth c =
           Inl (IndexError,
             df[length gs := empty_row\<lparr>col_new_module_area_per_day := Some v\<rparr>])"
    by (simp add: seaweed_growth_def)
  then show "\<exists>v. seaweed_growth c =
           Inl (IndexError,
             df[length gs := empty_row\<lparr>col_new_module_area_per_day := Some v\<rparr>])"
    by (rule exI)
qed

theorem growth_list_indexed_by_day_witness:
  "\<exists>s1 df1 s df v.
     growth_rate_fraction (example_config 100 1 1 0 100 (GrfList [1, 1 / 2]) 3)
       = GrfList [1, 1 / 2] \<and>
     1 < days_to_run (example_config 100 1 1 0 100 (GrfList [1, 1 / 2]) 3) \<and>
     run_days (example_config 100 1 1 0 100 (GrfList [1, 1 / 2]) 3) 1 = Inr (s1, df1) \<and>
     run_days (example_config 100 1 1 0 100 (GrfList [1, 1 / 2]) 3) 2 = Inr (s, df) \<and>
     self_shading (current_density s1 / 1000) = Inr 1 \<and>
     col_actual_growth_rate_multiplicator (df ! 1) = Some (3 / 2) \<and>
     length [1, 1 / 2 :: real] < days_to_run (example_config 100 1 1 0 100 (GrfList [1, 1 / 2]) 3) \<and>
     isl (seaweed_growth (example_config 100 1 1 0 100 (GrfList [1, 1 / 2]) 3)) \<and>
     list_all (\<lambda>x. x \<le> 1 \<and> x \<ge> 0) [1, 1 / 2 :: real] \<and>
     initial_area_used (example_config 100 1 1 0 100 (GrfList [1, 1 / 2]) 3) \<noteq> 0 \<and>
     0 < current_density s \<and>
     seaweed_growth (example_config 100 1 1 0 100 (GrfList [1, 1 / 2]) 3) =
       Inl (IndexError, df[2 := empty_row\<lparr>col_new_module_area_per_day := Some v\<rparr>])"
proof -
  let ?c = "example_config 100 1 1 0 100 (GrfList [1, 1 / 2]) 3"
  have l: "growth_rate_fraction ?c = GrfList [1, 1 / 2]"
    and c: "length [1, 1 / 2 :: real] < days_to_run ?c" "initial_area_used ?c \<noteq> 0"
      "optimal_growth_rate ?c = 100" "1 < days_to_run ?c"
    by (simp_all add: example_config_def)
  have a: "list_all (\<lambda>x. x \<le> 1 \<and> x \<ge> 0) [1, 1 / 2 :: real]" by simp
  obtain s1 df1 where r1: "run_days ?c 1 = Inr (s1, df1)"
    and ss: "self_shading (current_density s1 / 1000) = Inr 1"
    by (simp add: run_eval)
  obtain s df where r: "run_days ?c (length [1, 1 / 2 :: real]) = Inr (s, df)"
    and r2: "run_days ?c 2 = Inr (s, df)" and rS: "run_days ?c (Suc 1) = Inr (s, df)"
    and d: "0 < current_density s"
    by (simp add: run_eval numeral_2_eq_2)
  note t = growth_list_indexed_by_day [OF l]
  have "1 < days_to_run ?c \<and> run_days ?c 1 = Inr (s1, df1) \<and>
      run_days ?c (Suc 1) = Inr (s, df)"
    using c(4) r1 rS by (intro conjI) assumption+
  with t [of 1 s1 df1 s df, THEN conjunct1] ss c(3)
  have m: "col_actual_growth_rate_multiplicator (df ! 1) = Some (3 / 2)" by auto
  from t [of 0 s1 df1 s df, THEN conjunct2, THEN conjunct1] c(1)
  have f: "isl (seaweed_growth ?c)" by blast
  have "length [1, 1 / 2 :: real] < days_to_run ?c \<and>
      list_all (\<lambda>x. x \<le> 1 \<and> x \<ge> 0) [1, 1 / 2 :: real] \<and>
      initial_area_used ?c \<noteq> 0 \<and>
      run_days ?c (length [1, 1 / 2 :: real]) = Inr (s, df) \<and> 0 < current_density s"
    using c(1) a c(2) r d by (intro conjI) assumption+
  with t [of 0 s1 df1 s df s df, THEN conjunct2, THEN conjunct2]
  obtain v where "seaweed_growth ?c =
       Inl (IndexError,
         df[length [1, 1 / 2 :: real] := empty_row\<lparr>col_new_module_area_per_day := Some v\<rparr>])"
    by blast
  then have e: "seaweed_growth ?c =
       Inl (IndexError, df[2 := empty_row\<lparr>col_new_module_area_per_day := Some v\<rparr>])"
    by (simp only: list.size One_nat_def add_Suc_right add_0_right numeral_2_eq_2)
  show ?thesis
    using l c(4) r1 r2 ss m c(1) f a c(2) d e
    by (intro exI [of _ s1] exI [of _ df1] exI [of _ s] exI [of _ df] exI [of _ v] conjI)
       assumption+
qed

section \<open>The calibration run\<close>

lemma ne_set_empty: "x \<in> set xs \<Longrightarrow> xs \<noteq> []"
  by (cases xs) simp_all

lemma last_valid_None:
  "(\<forall>i<length df. col (df ! i) = None) \<Longrightarrow> last_valid col df = None"
proof -
  assume a: "\<forall>i<length df. col (df ! i) = None"
  have "filter (\<lambda>v. v \<noteq> None) (map col df) = []"
    unfolding filter_empty_conv using a by (auto simp: in_set_conv_nth)
  then show ?thesis by (simp add: last_valid_def)
qed

lemma last_valid_Some:
  assumes "last_valid col df = Some v"
  shows "\<exists>i<length df. col (df ! i) = Some v"
proof -
  let ?vs = "filter (\<lambda>v. v \<noteq> None) (map col df)"
  from assms have ne: "?vs \<noteq> []" and l: "last ?vs = Some v"
    by (auto simp: last_valid_def split: list.splits)
  from ne have "last ?vs \<in> set ?vs" by (rule last_in_set)
  with l have "Some v \<in> set (map col df)" by auto
  then show ?thesis by (auto simp: in_set_conv_nth)
qed

lemma last_valid_defined:
  assumes "i < length df" and "col (df ! i) \<noteq> None"
  shows "\<exists>v. last_valid col df = Some v"
proof -
  let ?vs = "filter (\<lambda>v. v \<noteq> None) (map col df)"
  from assms have "col (df ! i) \<in> set (map col df)" by simp
  with assms(2) have "col (df ! i) \<in> set ?vs" by simp
  then have ne: "?vs \<noteq> []" by (rule ne_set_empty)
  then have "last ?vs \<in> set ?vs" by (rule last_in_set)
  then have "last ?vs \<noteq> None" by auto
  with ne show ?thesis by (auto simp: last_valid_def split: list.splits)
qed

lemma day_step_multiplier_range:
  assumes "day_step c d s r = Inr (s', r')"
  shows "\<exists>agr. 0 \<le> agr \<and> agr \<le> 2 \<and>
           current_density s' = current_seaweed s * agr / current_area_used s"
  using assms
  by (elim day_stepE)
     (auto simp: finish_day_def Let_def dest!: harvest_state build_area_fields)

text \<open>
  In a calibration run no harvest fires on day 0 (the biomass 1 can at most double), so
  every recorded harvest interval is at least one day.
\<close>

lemma calibration_intervall_pos:
  assumes c: "c = calibration_config hl grf days pct ogr"
  shows "run_days c n = Inr (s, df) \<Longrightarrow> n \<le> days_to_run c \<Longrightarrow>
     (n = 0 \<or> 1 \<le> harvest_intervall s) \<and>
     (\<forall>i<n. \<forall>v. col_harvest_intervall (df ! i) = Some v \<longrightarrow> 1 \<le> v)"
proof (induction n arbitrary: s df)
  case 0
  then show ?case by simp
next
  case (Suc n)
  from Suc.prems(1) obtain s0 df0 r where r0: "run_days c n = Inr (s0, df0)"
    and st: "day_step c n s0 (df0 ! n) = Inr (s, r)" and df: "df = df0[n := r]"
    by (rule run_days_SucE)
  from Suc.prems(2) have n: "n < days_to_run c" by simp
  then have IH: "(n = 0 \<or> 1 \<le> harvest_intervall s0) \<and>
     (\<forall>i<n. \<forall>v. col_harvest_intervall (df0 ! i) = Some v \<longrightarrow> 1 \<le> v)"
    using Suc.IH [OF r0] by simp
  from run_days_unwritten [OF r0 _ n] have e: "df0 ! n = empty_row" by simp
  then have en: "col_harvest_intervall (df0 ! n) = None" by (simp add: empty_row_def)
  from run_days_length [OF r0] n have len: "n < length df0" by simp
  have hi: "1 \<le> harvest_intervall s"
  proof (cases "col_harvest_intervall r = None")
    case True
    from day_step_no_harvest(4) [OF st en True] show ?thesis by simp
  next
    case False
    from day_step_harvest(4) [OF st en False] show ?thesis by simp
  qed
  have row: "1 \<le> v" if v: "col_harvest_intervall r = Some v" for v
  proof (cases n)
    case 0
    with r0 have s0: "s0 = init_state c" by simp
    from day_step_multiplier_range [OF st] obtain agr where "agr \<le> 2"
      and "current_density s = current_seaweed s0 * agr / current_area_used s0" by blast
    with s0 c have "current_density s \<le> 2"
      by (simp add: init_state_def calibration_config_def)
    moreover from v have "col_harvest_intervall r \<noteq> None" by simp
    from day_step_harvest(1) [OF st en this] c have "3600 \<le> current_density s"
      by (simp add: calibration_config_def)
    ultimately show ?thesis by simp
  next
    case (Suc m)
    with IH have "1 \<le> harvest_intervall s0" by simp
    moreover from v have "col_harvest_intervall r \<noteq> None" by simp
    from day_step_harvest(3) [OF st en this] v have "v = real (harvest_intervall s0)" by simp
    ultimately show ?thesis by simp
  qed
  have "\<forall>i<Suc n. \<forall>v. col_harvest_intervall (df ! i) = Some v \<longrightarrow> 1 \<le> v"
  proof (intro allI impI)
    fix i v assume i: "i < Suc n" and v: "col_harvest_intervall (df ! i) = Some v"
    show "1 \<le> v"
    proof (cases "i = n")
      case True
      with df len v have "col_harvest_intervall r = Some v" by simp
      then show ?thesis by (rule row)
    next
      case False
      with i df v have "i < n" "col_harvest_intervall (df0 ! i) = Some v" by simp_all
      with IH show ?thesis by blast
    qed
  qed
  with hi show ?case by simp
qed

lemma stable_productivity_None:
  "(\<forall>i<length df. col_harvest_intervall (df ! i) = None) \<Longrightarrow> stable_productivity df = None"
  by (simp add: stable_productivity_def last_valid_None)

lemma stable_productivity_Some:
  "last_valid col_harvest_intervall df = Some hi \<Longrightarrow>
   last_valid col_harvest_for_food df = Some hf \<Longrightarrow>
   stable_productivity df = Some (hf / hi)"
  by (simp add: stable_productivity_def)

lemma exp_minus_2_ge: "1 / 9 \<le> exp (- 2 :: real)"
proof -
  have "exp (2 :: real) = exp 1 * exp 1" by (simp add: exp_add [symmetric])
  also have "\<dots> \<le> 3 * 3" by (intro mult_mono exp_le) simp_all
  finally have "exp (2 :: real) \<le> 9" by simp
  then have "inverse 9 \<le> inverse (exp (2 :: real))"
    by (intro le_imp_inverse_le) simp_all
  then show ?thesis by (simp add: exp_minus)
qed

lemma self_shading_lower:
  assumes "self_shading d = Inr f" and "d < 3.6"
  shows "1 / 9 \<le> f"
proof (cases "d < 0.4")
  case True
  with assms show ?thesis by (auto simp: self_shading_def split: if_splits)
next
  case False
  with assms have f: "f = exp (- 0.513 * (d - 0.4))"
    by (auto simp: self_shading_def split: if_splits)
  define t :: real where "t = - 0.513 * (d - 0.4)"
  from assms(2) have "- 2 \<le> t" by (simp add: t_def)
  then have "exp (- 2) \<le> exp t" by (simp only: exp_le_cancel_iff)
  with exp_minus_2_ge have "1 / 9 \<le> exp t" by (rule order_trans)
  with f show ?thesis by (simp only: t_def)
qed

lemma calibration_example_step:
  assumes c: "c = calibration_config 10 (GrfFloat 1) days 100 100"
      and inv: "current_area_used s = 1" "current_area_built s = 1"
        "new_module_area_per_day s = 0" "1 \<le> current_seaweed s" "0 < current_density s"
  shows "\<exists>s' r'. day_step c n s r = Inr (s', r') \<and>
     current_area_used s' = 1 \<and> current_area_built s' = 1 \<and>
     new_module_area_per_day s' = 0 \<and> 1 \<le> current_seaweed s' \<and> 0 < current_density s' \<and>
     ((col_harvest_intervall r' \<noteq> None \<and> col_harvest_for_food r' \<noteq> None) \<or>
      ((current_density s < 3600 \<longrightarrow> current_seaweed s * (10 / 9) \<le> current_seaweed s') \<and>
       current_density s' = current_seaweed s' \<and> current_density s' < 3600 \<and>
       r' = r\<lparr>col_new_module_area_per_day := Some 0,
             col_actual_growth_rate_multiplicator := col_actual_growth_rate_multiplicator r',
             col_current_seaweed_need := col_current_seaweed_need r',
             col_current_area_built := col_current_area_built r',
             col_current_area_used := col_current_area_used r',
             col_current_seaweed := col_current_seaweed r',
             col_current_density := col_current_density r',
             col_cumulative_harvest_for_food := col_cumulative_harvest_for_food r'\<rparr>))"
proof -
  from inv(5) have "0 < current_density s / 1000" by simp
  then obtain f where ss: "self_shading (current_density s / 1000) = Inr f"
    using self_shading_defined by blast
  from self_shading_range [OF ss] have f: "0 < f" "f \<le> 1" by simp_all
  have lo: "1 / 9 \<le> f" if "current_density s < 3600"
    using self_shading_lower [OF ss] that by simp
  from f have g: "growth_rate c n f = Inr (1 + f)"
    by (simp add: growth_rate_def c calibration_config_def)
  have b: "build_area c n s r = (s, r\<lparr>col_new_module_area_per_day := Some 0\<rparr>)"
    using inv by (simp add: build_area_def module_area_of_day_def growth_area_per_day_def
        Let_def c calibration_config_def)
  from inv(4) f have grow: "current_seaweed s \<le> current_seaweed s * (1 + f)"
    by (simp add: algebra_simps)
  have grow9: "current_seaweed s * (10 / 9) \<le> current_seaweed s * (1 + f)"
    if "current_density s < 3600"
    using lo [OF that] inv(4) by (intro mult_left_mono) simp_all
  from inv(4) grow have one: "1 \<le> current_seaweed s * (1 + f)" by linarith
  show ?thesis
  proof (cases "3600 \<le> current_seaweed s * (1 + f)")
    case True
    with ss g b f inv grow one show ?thesis
      by (simp add: day_step_def harvest_def finish_day_def Let_def c calibration_config_def
          del: not_None_eq)
  next
    case False
    with ss g b f inv grow grow9 one show ?thesis
      by (simp add: day_step_def finish_day_def Let_def c calibration_config_def
          del: not_None_eq)
  qed
qed

lemma calibration_example_run:
  assumes c: "c = calibration_config 10 (GrfFloat 1) days 100 100"
  shows "n \<le> days \<Longrightarrow>
     \<exists>s df. run_days c n = Inr (s, df) \<and>
       current_area_used s = 1 \<and> current_area_built s = 1 \<and>
       new_module_area_per_day s = 0 \<and> 1 \<le> current_seaweed s \<and> 0 < current_density s \<and>
       ((\<exists>i<n. col_harvest_intervall (df ! i) \<noteq> None \<and> col_harvest_for_food (df ! i) \<noteq> None) \<or>
        ((10 / 9) ^ n \<le> current_seaweed s \<and> current_density s = current_seaweed s \<and>
         current_density s < 3600))"
proof (induction n)
  case 0
  show ?case by (simp add: c init_state_def calibration_config_def)
next
  case (Suc n)
  then obtain s df where r: "run_days c n = Inr (s, df)"
    and inv: "current_area_used s = 1" "current_area_built s = 1"
      "new_module_area_per_day s = 0" "1 \<le> current_seaweed s" "0 < current_density s"
    and alt: "(\<exists>i<n. col_harvest_intervall (df ! i) \<noteq> None \<and> col_harvest_for_food (df ! i) \<noteq> None) \<or>
        ((10 / 9) ^ n \<le> current_seaweed s \<and> current_density s = current_seaweed s \<and>
         current_density s < 3600)"
    by auto
  from calibration_example_step [OF c inv, of n "df ! n"] obtain s' r' where
    st: "day_step c n s (df ! n) = Inr (s', r')"
    and inv': "current_area_used s' = 1" "current_area_built s' = 1"
      "new_module_area_per_day s' = 0" "1 \<le> current_seaweed s'" "0 < current_density s'"
    and alt': "(col_harvest_intervall r' \<noteq> None \<and> col_harvest_for_food r' \<noteq> None) \<or>
      ((current_density s < 3600 \<longrightarrow> current_seaweed s * (10 / 9) \<le> current_seaweed s') \<and>
       current_density s' = current_seaweed s' \<and> current_density s' < 3600)"
    by blast
  from r st have r': "run_days c (Suc n) = Inr (s', df[n := r'])" by simp
  from run_days_length [OF r] c Suc.prems have len: "n < length df"
    by (simp add: calibration_config_def)
  have "(\<exists>i<Suc n. col_harvest_intervall (df[n := r'] ! i) \<noteq> None \<and>
            col_harvest_for_food (df[n := r'] ! i) \<noteq> None) \<or>
        ((10 / 9) ^ Suc n \<le> current_seaweed s' \<and> current_density s' = current_seaweed s' \<and>
         current_density s' < 3600)"
  proof (cases "\<exists>i<n. col_harvest_intervall (df ! i) \<noteq> None \<and> col_harvest_for_food (df ! i) \<noteq> None")
    case True
    then obtain i where "i < n" "col_harvest_intervall (df ! i) \<noteq> None"
      "col_harvest_for_food (df ! i) \<noteq> None" by blast
    then have "i < Suc n \<and> col_harvest_intervall (df[n := r'] ! i) \<noteq> None \<and>
            col_harvest_for_food (df[n := r'] ! i) \<noteq> None" by simp
    then show ?thesis by blast
  next
    case False
    with alt have lo: "(10 / 9) ^ n \<le> current_seaweed s" and d: "current_density s < 3600"
      by blast+
    show ?thesis
    proof (cases "col_harvest_intervall r' \<noteq> None \<and> col_harvest_for_food r' \<noteq> None")
      case True
      with len have "n < Suc n \<and> col_harvest_intervall (df[n := r'] ! n) \<noteq> None \<and>
            col_harvest_for_food (df[n := r'] ! n) \<noteq> None" by simp
      then show ?thesis by blast
    next
      case False
      with alt' d have g: "current_seaweed s * (10 / 9) \<le> current_seaweed s'"
        and e: "current_density s' = current_seaweed s'" "current_density s' < 3600"
        by blast+
      from lo have "(10 / 9) ^ n * (10 / 9) \<le> current_seaweed s * (10 / 9)"
        by (intro mult_right_mono) simp_all
      with g have "(10 / 9) ^ Suc n \<le> current_seaweed s'" by simp
      with e show ?thesis by blast
    qed
  qed
  with r' inv' show ?case by blast
qed

lemma power_10_9_128: "3600 \<le> (10 / 9 :: real) ^ 128"
  by (simp add: power_divide)

text \<open>
  The cell that \<open>last_valid\<close> returns is the cell of the greatest row index at which the
  column is not empty.
\<close>

lemma last_valid_filter:
  "last_valid col df =
     (if filter (\<lambda>v. v \<noteq> None) (map col df) = [] then None
      else last (filter (\<lambda>v. v \<noteq> None) (map col df)))"
  by (simp add: last_valid_def split: list.splits)

lemma last_valid_last:
  assumes i: "i < length df" and v: "col (df ! i) = Some v"
      and later: "\<forall>j. i < j \<and> j < length df \<longrightarrow> col (df ! j) = None"
  shows "last_valid col df = Some v"
proof -
  have "\<forall>x \<in> set (drop (Suc i) df). col x = None"
  proof
    fix x assume "x \<in> set (drop (Suc i) df)"
    then obtain n where n: "n < length (drop (Suc i) df)" and x: "x = drop (Suc i) df ! n"
      by (auto simp: in_set_conv_nth)
    from n have "Suc i + n < length df" by simp
    with later have "col (df ! (Suc i + n)) = None" by simp
    with x n show "col x = None" by simp
  qed
  then have tl: "filter (\<lambda>v. v \<noteq> None) (map col (drop (Suc i) df)) = []"
    by (simp add: filter_empty_conv)
  from i have "df = take i df @ df ! i # drop (Suc i) df" by (rule id_take_nth_drop)
  then have "map col df = map col (take i df @ df ! i # drop (Suc i) df)" by simp
  then have "map col df = map col (take i df) @ col (df ! i) # map col (drop (Suc i) df)"
    by (simp only: map_append list.map)
  then have "filter (\<lambda>v. v \<noteq> None) (map col df) =
      filter (\<lambda>v. v \<noteq> None) (map col (take i df)) @ [Some v]"
    using v tl by simp
  then show ?thesis by (simp add: last_valid_filter)
qed

lemma last_cell_exists:
  assumes "i < length df" and "col (df ! i) \<noteq> None"
  shows "\<exists>m v. m < length df \<and> col (df ! m) = Some v \<and>
           (\<forall>j. m < j \<and> j < length df \<longrightarrow> col (df ! j) = None)"
proof -
  let ?S = "{n. n < length df \<and> col (df ! n) \<noteq> None}"
  have fin: "finite ?S" by simp
  from assms have ne: "?S \<noteq> {}" by blast
  from Max_in [OF fin ne] have m: "Max ?S < length df" "col (df ! Max ?S) \<noteq> None"
    by simp_all
  have later: "col (df ! j) = None" if "Max ?S < j" "j < length df" for j
  proof (rule ccontr)
    assume "col (df ! j) \<noteq> None"
    with that(2) have "j \<in> ?S" by simp
    with fin have "j \<le> Max ?S" by (rule Max_ge)
    with that(1) show False by simp
  qed
  from m(2) obtain v where v: "col (df ! Max ?S) = Some v" by (cases "col (df ! Max ?S)") simp_all
  from later have "\<forall>j. Max ?S < j \<and> j < length df \<longrightarrow> col (df ! j) = None" by blast
  with m(1) v show ?thesis by (intro exI [of _ "Max ?S"] exI [of _ v] conjI)
qed

text \<open>
  The data frame of a run with two harvests (days 1 and 3, intervals 1 and 2, food
  harvests of 270 each): the productivity is computed from the cells of the last
  harvest.
\<close>

lemma stable_productivity_two_harvests:
  "\<exists>s df. seaweed_growth (example_config 100 1 1 0 100 (GrfFloat 1) 4) = Inr (s, df) \<and>
     col_harvest_intervall (df ! 1) = Some 1 \<and> col_harvest_for_food (df ! 1) = Some 270 \<and>
     col_harvest_intervall (df ! 3) = Some 2 \<and> col_harvest_for_food (df ! 3) = Some 270 \<and>
     stable_productivity df = Some 135"
proof -
  obtain s r0 r1 r2 r3 where
    sg: "seaweed_growth (example_config 100 1 1 0 100 (GrfFloat 1) 4) = Inr (s, [r0, r1, r2, r3])"
    and hi: "col_harvest_intervall r0 = None" "col_harvest_intervall r1 = Some 1"
      "col_harvest_intervall r2 = None" "col_harvest_intervall r3 = Some 2"
    and hf: "col_harvest_for_food r0 = None" "col_harvest_for_food r1 = Some 270"
      "col_harvest_for_food r2 = None" "col_harvest_for_food r3 = Some 270"
    by (simp add: run_eval eval_nat_numeral)
  from hi hf have sp: "stable_productivity [r0, r1, r2, r3] = Some 135"
    by (simp add: stable_productivity_def last_valid_def)
  have n1: "[r0, r1, r2, r3] ! 1 = r1" and n3: "[r0, r1, r2, r3] ! 3 = r3"
    by (simp_all add: eval_nat_numeral)
  show ?thesis
    by (rule exI [of _ s], rule exI [of _ "[r0, r1, r2, r3]"])
       (simp only: sg n1 n3 hi hf sp simp_thms)
qed

lemma calibration_example_harvests:
  "\<exists>s df i hi k hf.
     seaweed_growth (calibration_config 10 (GrfFloat 1) 128 100 100) = Inr (s, df) \<and>
     i < 128 \<and> col_harvest_intervall (df ! i) = Some hi \<and>
     (\<forall>j. i < j \<and> j < 128 \<longrightarrow> col_harvest_intervall (df ! j) = None) \<and>
     k < 128 \<and> col_harvest_for_food (df ! k) = Some hf \<and>
     (\<forall>j. k < j \<and> j < 128 \<longrightarrow> col_harvest_for_food (df ! j) = None)"
proof -
  let ?c = "calibration_config 10 (GrfFloat 1) 128 100 100"
  from calibration_example_run [OF refl, of 128 128] obtain s df where
    r: "run_days ?c 128 = Inr (s, df)"
    and alt: "(\<exists>i<128. col_harvest_intervall (df ! i) \<noteq> None \<and> col_harvest_for_food (df ! i) \<noteq> None) \<or>
        ((10 / 9) ^ 128 \<le> current_seaweed s \<and> current_density s = current_seaweed s \<and>
         current_density s < 3600)"
    by auto
  from alt power_10_9_128 obtain n where n: "n < 128"
    and h: "col_harvest_intervall (df ! n) \<noteq> None" "col_harvest_for_food (df ! n) \<noteq> None"
    by force
  from run_days_length [OF r] have len: "length df = 128" by (simp add: calibration_config_def)
  with n have nl: "n < length df" by simp
  from last_cell_exists [where col = col_harvest_intervall, OF nl h(1)] len
  obtain i hi where a: "i < 128" "col_harvest_intervall (df ! i) = Some hi"
    "\<forall>j. i < j \<and> j < 128 \<longrightarrow> col_harvest_intervall (df ! j) = None"
    by auto
  from last_cell_exists [where col = col_harvest_for_food, OF nl h(2)] len
  obtain k hf where b: "k < 128" "col_harvest_for_food (df ! k) = Some hf"
    "\<forall>j. k < j \<and> j < 128 \<longrightarrow> col_harvest_for_food (df ! j) = None"
    by auto
  from r have sg: "seaweed_growth ?c = Inr (s, df)"
    by (simp add: seaweed_growth_def calibration_config_def)
  show ?thesis
    by (rule exI [of _ s], rule exI [of _ df], rule exI [of _ i], rule exI [of _ hi],
        rule exI [of _ k], rule exI [of _ hf]) (intro conjI sg a b)
qed

text \<open>
  Claim C7. When the calibration run completes without a single harvest (no harvest
  interval is ever recorded), \<open>determine_average_productivity\<close> returns the absent
  value. When the run has recorded a harvest interval and a food-harvest mass, the
  result is the food-harvest mass of the last row that holds one divided by the harvest
  interval of the last row that holds one, and that interval is at least one day, so
  the division is not by zero.
\<close>

theorem calibrator_productivity:
  assumes sg: "seaweed_growth (calibration_config hl grf days pct ogr) = Inr (s, df)"
  shows "((\<forall>i<days. col_harvest_intervall (df ! i) = None) \<longrightarrow>
        determine_average_productivity hl grf days pct ogr = Inr None) \<and>
     (i < days \<and> col_harvest_intervall (df ! i) = Some hi \<and>
      (\<forall>j. i < j \<and> j < days \<longrightarrow> col_harvest_intervall (df ! j) = None) \<and>
      k < days \<and> col_harvest_for_food (df ! k) = Some hf \<and>
      (\<forall>j. k < j \<and> j < days \<longrightarrow> col_harvest_for_food (df ! j) = None) \<longrightarrow>
        determine_average_productivity hl grf days pct ogr = Inr (Some (hf / hi)) \<and> 1 \<le> hi)"
proof (intro conjI impI)
  let ?c = "calibration_config hl grf days pct ogr"
  have d: "days_to_run ?c = days" by (simp add: calibration_config_def)
  from sg have run: "run_days ?c (days_to_run ?c) = Inr (s, df)"
    by (simp add: seaweed_growth_run)
  from run_days_length [OF run] d have len: "length df = days" by simp
  {
    assume "\<forall>i<days. col_harvest_intervall (df ! i) = None"
    with len have "stable_productivity df = None" by (simp add: stable_productivity_None)
    with sg show "determine_average_productivity hl grf days pct ogr = Inr None"
      by (simp add: determine_average_productivity_def)
  }
  {
    assume h: "i < days \<and> col_harvest_intervall (df ! i) = Some hi \<and>
      (\<forall>j. i < j \<and> j < days \<longrightarrow> col_harvest_intervall (df ! j) = None) \<and>
      k < days \<and> col_harvest_for_food (df ! k) = Some hf \<and>
      (\<forall>j. k < j \<and> j < days \<longrightarrow> col_harvest_for_food (df ! j) = None)"
    with len have "last_valid col_harvest_intervall df = Some hi"
      by (intro last_valid_last [where i = i]) simp_all
    moreover from h len have "last_valid col_harvest_for_food df = Some hf"
      by (intro last_valid_last [where i = k]) simp_all
    ultimately have "stable_productivity df = Some (hf / hi)"
      by (rule stable_productivity_Some)
    with sg show "determine_average_productivity hl grf days pct ogr = Inr (Some (hf / hi))"
      by (simp add: determine_average_productivity_def)
    from h have "i < days" "col_harvest_intervall (df ! i) = Some hi" by simp_all
    with calibration_intervall_pos [OF refl run order_refl] d show "1 \<le> hi" by simp
  }
qed

theorem calibrator_productivity_witness:
  "(\<exists>s df. seaweed_growth (calibration_config 10 (GrfFloat 0) 2 100 100) = Inr (s, df) \<and>
      (\<forall>i<2. col_harvest_intervall (df ! i) = None) \<and>
      determine_average_productivity 10 (GrfFloat 0) 2 100 100 = Inr None) \<and>
   (\<exists>s df i hi k hf.
      seaweed_growth (calibration_config 10 (GrfFloat 1) 128 100 100) = Inr (s, df) \<and>
      i < 128 \<and> col_harvest_intervall (df ! i) = Some hi \<and>
      (\<forall>j. i < j \<and> j < 128 \<longrightarrow> col_harvest_intervall (df ! j) = None) \<and>
      k < 128 \<and> col_harvest_for_food (df ! k) = Some hf \<and>
      (\<forall>j. k < j \<and> j < 128 \<longrightarrow> col_harvest_for_food (df ! j) = None) \<and>
      determine_average_productivity 10 (GrfFloat 1) 128 100 100 = Inr (Some (hf / hi)) \<and>
      1 \<le> hi)"
proof
  obtain s df where sg: "seaweed_growth (calibration_config 10 (GrfFloat 0) 2 100 100) = Inr (s, df)"
    and n: "\<forall>i<2. col_harvest_intervall (df ! i) = None"
    by (simp add: run_eval calibration_config_def numeral_2_eq_2 less_Suc_eq)
  from calibrator_productivity [OF sg, of 0 0 0 0, THEN conjunct1] n
  have p: "determine_average_productivity 10 (GrfFloat 0) 2 100 100 = Inr None" by (rule mp)
  show "\<exists>s df. seaweed_growth (calibration_config 10 (GrfFloat 0) 2 100 100) = Inr (s, df) \<and>
      (\<forall>i<2. col_harvest_intervall (df ! i) = None) \<and>
      determine_average_productivity 10 (GrfFloat 0) 2 100 100 = Inr None"
    by (rule exI [of _ s], rule exI [of _ df]) (intro conjI sg n p)
next
  from calibration_example_harvests obtain s df i hi k hf where
    sg: "seaweed_growth (calibration_config 10 (GrfFloat 1) 128 100 100) = Inr (s, df)"
    and a: "i < 128" "col_harvest_intervall (df ! i) = Some hi"
      "\<forall>j. i < j \<and> j < 128 \<longrightarrow> col_harvest_intervall (df ! j) = None"
    and b: "k < 128" "col_harvest_for_food (df ! k) = Some hf"
      "\<forall>j. k < j \<and> j < 128 \<longrightarrow> col_harvest_for_food (df ! j) = None"
    by (elim exE conjE)
  have l: "i < 128 \<and> col_harvest_intervall (df ! i) = Some hi \<and>
      (\<forall>j. i < j \<and> j < 128 \<longrightarrow> col_harvest_intervall (df ! j) = None) \<and>
      k < 128 \<and> col_harvest_for_food (df ! k) = Some hf \<and>
      (\<forall>j. k < j \<and> j < 128 \<longrightarrow> col_harvest_for_food (df ! j) = None)"
    by (intro conjI a b)
  from calibrator_productivity [OF sg, of i hi k hf, THEN conjunct2] l
  have p: "determine_average_productivity 10 (GrfFloat 1) 128 100 100 = Inr (Some (hf / hi)) \<and>
      1 \<le> hi" by (rule mp)
  show "\<exists>s df i hi k hf.
      seaweed_growth (calibration_config 10 (GrfFloat 1) 128 100 100) = Inr (s, df) \<and>
      i < 128 \<and> col_harvest_intervall (df ! i) = Some hi \<and>
      (\<forall>j. i < j \<and> j < 128 \<longrightarrow> col_harvest_intervall (df ! j) = None) \<and>
      k < 128 \<and> col_harvest_for_food (df ! k) = Some hf \<and>
      (\<forall>j. k < j \<and> j < 128 \<longrightarrow> col_harvest_for_food (df ! j) = None) \<and>
      determine_average_productivity 10 (GrfFloat 1) 128 100 100 = Inr (Some (hf / hi)) \<and>
      1 \<le> hi"
    by (rule exI [of _ s], rule exI [of _ df], rule exI [of _ i], rule exI [of _ hi],
        rule exI [of _ k], rule exI [of _ hf])
       (intro conjI sg a b p [THEN conjunct1] p [THEN conjunct2])
qed

end
